theory Spec2Isabelle
  imports Main "HOL-Library.Char_ord" "HOL-Library.List_Lexorder" "HOL-Library.FSet"
begin

section \<open>Data model\<close>

text \<open>
  The environment is the flat configuration record that every function of
  \<^verbatim>\<open>web_update.py\<close> receives as \<^verbatim>\<open>env\<close>; only the three keys the module reads are kept.
\<close>

record env =
  PRIMARY_HOSTNAME :: string
  STORAGE_ROOT :: string
  CSR_COUNTRY :: string

text \<open>
  A value of the custom DNS table is what \<^verbatim>\<open>get_web_domains\<close> tells apart with
  \<^verbatim>\<open>isinstance\<close>: a plain string, or a dictionary from record types to strings.
\<close>

datatype dns_value = Str string | Dict "string \<rightharpoonup> string"

text \<open>
  The file tree: a path is absent, a regular file with its text, or a directory.
  The log records, in order, what the module does to the outside: directories it
  creates, external processes it starts, files it writes.
\<close>

datatype node = File string | Dir

datatype event = Makedirs string | Exec "string list" | Write string string

datatype error =
    FileNotFoundError string | IsADirectoryError string | NotADirectoryError string
  | FileExistsError string | PermissionError string | CalledProcessError "string list"
  | IndexError | KeyError | TypeError | YAMLError

text \<open>
  The calls to the operating system that can be refused for a reason the file tree does not
  show (permissions, a read-only or full device, bytes that do not decode).
\<close>

datatype os_call = Open_read string | Open_write string | Mkdir string

record world =
  nodes :: "string \<rightharpoonup> node"
  log :: "event list"

text \<open>
  What the YAML parser can return for the overlay file: a string, a sequence, a mapping
  (its string keys, in order; a key that is no string never equals a domain name), or a
  scalar that is no string (null, a number, a boolean), kept as the text that \<^verbatim>\<open>str\<close>
  gives for it.
\<close>

datatype yaml = Scalar string | YStr string | YSeq "yaml list" | YMap "(string \<times> yaml) list"

text \<open>
  The collaborators that \<^verbatim>\<open>web_update.py\<close> imports or shells out to are parameters of the
  model: the mail-domain provider, the custom DNS table, the file-name sanitiser, the
  certificate-coverage checker, the exit status of an external process, the YAML parser,
  the text that \<^verbatim>\<open>str\<close> gives for a sequence or a mapping, what the operating system
  grants, and the directory of the module file.
\<close>

record collab =
  get_mail_domains :: "env \<Rightarrow> string fset"
  get_custom_dns_config :: "env \<Rightarrow> (string \<times> dns_value) list"
  safe_domain_name :: "string \<Rightarrow> string"
  check_certificate :: "string \<Rightarrow> string \<Rightarrow> world \<Rightarrow> string"
  exit_ok :: "string list \<Rightarrow> world \<Rightarrow> bool"
  rtyaml_load :: "string \<Rightarrow> yaml option"
  py_str :: "yaml \<Rightarrow> string"
  os_ok :: "os_call \<Rightarrow> world \<Rightarrow> bool"
  module_dir :: string

section \<open>Domain selection\<close>

text \<open>
  Modelled from the spec: \<^verbatim>\<open>sort_domains\<close> is defined in \<^verbatim>\<open>utils.py\<close>, which is not among
  the sources. Section 4.1, step 3: the set is sorted with the primary hostname forced
  first and the remainder in a deterministic secondary order, here the lexicographic one.
\<close>

definition sort_domains :: "string fset \<Rightarrow> env \<Rightarrow> string list" where
  "sort_domains domains env =
     (if PRIMARY_HOSTNAME env |\<in>| domains then [PRIMARY_HOSTNAME env] else [])
     @ sorted_list_of_fset (domains |-| {|PRIMARY_HOSTNAME env|})"

text \<open>The test of lines 30 to 32: the override maps the domain to another address.\<close>

fun points_elsewhere :: "dns_value \<Rightarrow> bool" where
  "points_elsewhere (Str s) = (s \<noteq> ''local'')"
| "points_elsewhere (Dict r) =
     ((r ''A'' \<noteq> None \<and> r ''A'' \<noteq> Some ''local'')
      \<or> (r ''AAAA'' \<noteq> None \<and> r ''AAAA'' \<noteq> Some ''local''))"

text \<open>The loop of lines 28 to 33 over the items of the table.\<close>

fun remove_external :: "(string \<times> dns_value) list \<Rightarrow> string fset \<Rightarrow> string fset" where
  "remove_external [] domains = domains"
| "remove_external ((domain, v) # rest) domains =
     (if domain |\<notin>| domains then remove_external rest domains
      else if points_elsewhere v then remove_external rest (domains |-| {|domain|})
      else remove_external rest domains)"

definition get_web_domains :: "collab \<Rightarrow> env \<Rightarrow> string list" where
  "get_web_domains c env =
     (let domains = {||};
          domains = finsert (PRIMARY_HOSTNAME env) domains;
          domains = domains |\<union>| get_mail_domains c env;
          dns = get_custom_dns_config c env;
          domains = remove_external dns domains
      in sort_domains domains env)"

section \<open>Strings and paths\<close>

text \<open>
  Python's \<^verbatim>\<open>str.replace(old, new)\<close>: every occurrence of \<^verbatim>\<open>old\<close>, found from left to
  right without overlap, is replaced; the text put in is not scanned again.
\<close>

function replace :: "string \<Rightarrow> string \<Rightarrow> string \<Rightarrow> string" where
  "replace old new [] = (if old = [] then new else [])"
| "replace old new (c # cs) =
     (if old = [] then new @ c # replace old new cs
      else if take (length old) (c # cs) = old
           then new @ replace old new (drop (length old) (c # cs))
      else c # replace old new cs)"
  by pat_completeness auto
termination
  by (relation "measure (\<lambda>(old, new, s). length s)") auto

text \<open>
  Python's \<^verbatim>\<open>re.split\<close> for a pattern that is one literal in a capture group: the pieces
  between the matches, with the matched literal itself between two pieces.
\<close>

function re_split_from :: "string \<Rightarrow> string \<Rightarrow> string \<Rightarrow> string list" where
  "re_split_from sep cur [] = [cur]"
| "re_split_from sep cur (c # cs) =
     (if sep \<noteq> [] \<and> take (length sep) (c # cs) = sep
      then cur # sep # re_split_from sep [] (drop (length sep) (c # cs))
      else re_split_from sep (cur @ [c]) cs)"
  by pat_completeness auto
termination
  by (relation "measure (\<lambda>(sep, cur, s). length s)") auto

definition re_split :: "string \<Rightarrow> string \<Rightarrow> string list" where
  "re_split sep s = re_split_from sep [] s"

text \<open>\<^verbatim>\<open>os.path.join\<close> of the POSIX path module, one component at a time.\<close>

definition join2 :: "string \<Rightarrow> string \<Rightarrow> string" where
  "join2 path b =
     (if b \<noteq> [] \<and> hd b = CHR ''/'' then b
      else if path = [] \<or> last path = CHR ''/'' then path @ b
      else path @ ''/'' @ b)"

definition path_join :: "string \<Rightarrow> string list \<Rightarrow> string" where
  "path_join a p = foldl join2 a p"

text \<open>\<^verbatim>\<open>os.path.dirname\<close> of the POSIX path module.\<close>

definition dirname :: "string \<Rightarrow> string" where
  "dirname p =
     (let head = rev (dropWhile (\<lambda>ch. ch \<noteq> CHR ''/'') (rev p))
      in if head \<noteq> [] \<and> filter (\<lambda>ch. ch \<noteq> CHR ''/'') head \<noteq> []
         then rev (dropWhile (\<lambda>ch. ch = CHR ''/'') (rev head)) else head)"

text \<open>
  What \<^verbatim>\<open>read()\<close> returns for a file opened in text mode: every carriage return
  followed by a line feed, and every other carriage return, is read as one line feed.
\<close>

fun universal_newlines :: "string \<Rightarrow> string" where
  "universal_newlines [] = []"
| "universal_newlines [ch] = (if ch = CHR 0x0D then [CHR 0x0A] else [ch])"
| "universal_newlines (ch # d # cs) =
     (if ch = CHR 0x0D \<and> d = CHR 0x0A then CHR 0x0A # universal_newlines cs
      else if ch = CHR 0x0D then CHR 0x0A # universal_newlines (d # cs)
      else ch # universal_newlines (d # cs))"

text \<open>Python's \<^verbatim>\<open>k in s\<close> for two strings: \<^verbatim>\<open>k\<close> occurs in \<^verbatim>\<open>s\<close>.\<close>

fun contains_str :: "string \<Rightarrow> string \<Rightarrow> bool" where
  "contains_str k [] = (k = [])"
| "contains_str k (ch # cs) = (take (length k) (ch # cs) = k \<or> contains_str k cs)"

text \<open>
  The proper parents of a path, nearest first, as repeated \<^verbatim>\<open>os.path.dirname\<close> gives them;
  the current directory and the root are left out, they always exist.
\<close>

definition root_like :: "string \<Rightarrow> bool" where
  "root_like p = (p \<noteq> [] \<and> filter (\<lambda>ch. ch \<noteq> CHR ''/'') p = [])"

function ancestors :: "string \<Rightarrow> string list" where
  "ancestors p =
     (if dirname p = [] \<or> root_like (dirname p) \<or> length p \<le> length (dirname p) then []
      else dirname p # ancestors (dirname p))"
  by pat_completeness auto
termination
  by (relation "measure length") auto

declare ancestors.simps [simp del]

definition marker :: string where
  "marker = ''# ADDITIONAL DIRECTIVES HERE\<newline>''"

definition proxy_block :: "string \<Rightarrow> string" where
  "proxy_block target =
     [CHR 0x09] @ ''location / {\<newline>'' @ [CHR 0x09, CHR 0x09] @ ''proxy_pass '' @ target
     @ '';\<newline>'' @ [CHR 0x09] @ ''}\<newline>''"

section \<open>The file tree and external processes\<close>

text \<open>
  A file holds the text that was written to it; on the POSIX systems the module runs on,
  writing in text mode stores the text as it is, and reading translates the line ends.
  Opening a file for reading raises when the path is absent or a directory; opening it
  for writing raises when the path is a directory or its parent is no directory; either
  raises when the operating system refuses. A refused call leaves the tree as it is.
  What an external process does to the file tree is outside this module and is not
  modelled: a process is seen through its exit status and through the log.
\<close>

definition path_exists :: "world \<Rightarrow> string \<Rightarrow> bool" where
  "path_exists w p = (nodes w p \<noteq> None)"

definition read_file :: "collab \<Rightarrow> world \<Rightarrow> string \<Rightarrow> error + string" where
  "read_file c w p =
     (case nodes w p of
        None \<Rightarrow> Inl (FileNotFoundError p)
      | Some Dir \<Rightarrow> Inl (IsADirectoryError p)
      | Some (File t) \<Rightarrow>
         if os_ok c (Open_read p) w then Inr (universal_newlines t)
         else Inl (PermissionError p))"

definition write_file :: "collab \<Rightarrow> string \<Rightarrow> string \<Rightarrow> world \<Rightarrow> (error + unit) \<times> world" where
  "write_file c p t w =
     (if nodes w p = Some Dir then (Inl (IsADirectoryError p), w)
      else if dirname p \<noteq> [] \<and> \<not> root_like (dirname p) \<and> nodes w (dirname p) = None
           then (Inl (FileNotFoundError p), w)
      else if dirname p \<noteq> [] \<and> \<not> root_like (dirname p) \<and> nodes w (dirname p) \<noteq> Some Dir
           then (Inl (NotADirectoryError p), w)
      else if \<not> os_ok c (Open_write p) w then (Inl (PermissionError p), w)
      else (Inr (), w\<lparr>nodes := (nodes w)(p \<mapsto> File t), log := log w @ [Write p t]\<rparr>))"

text \<open>
  \<^verbatim>\<open>os.makedirs(name, exist_ok=True)\<close>: nothing to do for a directory that exists; an error
  for the empty path, for a regular file at the path and for a regular file among its
  parents; otherwise the directory and its missing parents are created.
\<close>

definition is_file :: "world \<Rightarrow> string \<Rightarrow> bool" where
  "is_file w p = (case nodes w p of Some (File t) \<Rightarrow> True | _ \<Rightarrow> False)"

definition add_dirs :: "string list \<Rightarrow> (string \<rightharpoonup> node) \<Rightarrow> (string \<rightharpoonup> node)" where
  "add_dirs ps m = foldr (\<lambda>p m'. if m' p = None then m'(p \<mapsto> Dir) else m') ps m"

definition makedirs :: "collab \<Rightarrow> string \<Rightarrow> world \<Rightarrow> (error + unit) \<times> world" where
  "makedirs c name w =
     (if name = [] then (Inl (FileNotFoundError name), w)
      else if root_like name \<or> nodes w name = Some Dir then (Inr (), w)
      else if is_file w name then (Inl (FileExistsError name), w)
      else if list_ex (is_file w) (ancestors name) then (Inl (NotADirectoryError name), w)
      else if \<not> os_ok c (Mkdir name) w then (Inl (PermissionError name), w)
      else (Inr (), w\<lparr>nodes := add_dirs (name # ancestors name) (nodes w),
                     log := log w @ [Makedirs name]\<rparr>))"

text \<open>
  Modelled from the spec: \<^verbatim>\<open>shell\<close> is defined in \<^verbatim>\<open>utils.py\<close>, which is not among the
  sources. Section 6: an external invocation must surface a non-zero exit as a failure;
  \<^verbatim>\<open>web_update.py\<close> always calls it with the method \<^verbatim>\<open>check_call\<close>.
\<close>

definition shell :: "collab \<Rightarrow> string list \<Rightarrow> world \<Rightarrow> (error + unit) \<times> world" where
  "shell c cmd_args w =
     (if exit_ok c cmd_args w then (Inr (), w\<lparr>log := log w @ [Exec cmd_args]\<rparr>)
      else (Inl (CalledProcessError cmd_args), w\<lparr>log := log w @ [Exec cmd_args]\<rparr>))"

section \<open>SSL material\<close>

definition get_web_root :: "collab \<Rightarrow> string \<Rightarrow> env \<Rightarrow> world \<Rightarrow> string" where
  "get_web_root c domain env w =
     (let root = path_join (STORAGE_ROOT env) [''www'', safe_domain_name c domain]
      in if path_exists w root then root
         else path_join (STORAGE_ROOT env) [''www'', safe_domain_name c ''default''])"

definition get_domain_ssl_files ::
  "collab \<Rightarrow> string \<Rightarrow> env \<Rightarrow> world \<Rightarrow> string \<times> string \<times> string" where
  "get_domain_ssl_files c domain env w =
     (let ssl_key = path_join (STORAGE_ROOT env) [''ssl/ssl_private_key.pem''];
          ssl_key_is_alt = False;
          alt_key = path_join (STORAGE_ROOT env)
                      [''ssl/'' @ safe_domain_name c domain @ ''/private_key.pem''];
          (ssl_key, ssl_key_is_alt) =
             (if domain \<noteq> PRIMARY_HOSTNAME env \<and> path_exists w alt_key
              then (alt_key, True) else (ssl_key, ssl_key_is_alt));
          ssl_certificate_primary = path_join (STORAGE_ROOT env) [''ssl/ssl_certificate.pem''];
          ssl_certificate =
             (if domain = PRIMARY_HOSTNAME env then ssl_certificate_primary
              else if \<not> ssl_key_is_alt
                      \<and> check_certificate c domain ssl_certificate_primary w = ''OK''
                   then ssl_certificate_primary
              else path_join (STORAGE_ROOT env)
                     [''ssl/'' @ safe_domain_name c domain @ ''/ssl_certificate.pem'']);
          csr_path =
             (if domain = PRIMARY_HOSTNAME env
              then path_join (STORAGE_ROOT env) [''ssl/ssl_cert_sign_req.csr'']
              else path_join (STORAGE_ROOT env)
                     [''ssl/'' @ safe_domain_name c domain @ ''/certificate_signing_request.csr''])
      in (ssl_key, ssl_certificate, csr_path))"

text \<open>The two command lines of lines 170 to 182.\<close>

definition csr_command :: "string \<Rightarrow> string \<Rightarrow> string \<Rightarrow> env \<Rightarrow> string list" where
  "csr_command domain ssl_key csr_path env =
     [''openssl'', ''req'', ''-new'', ''-key'', ssl_key, ''-out'', csr_path,
      ''-subj'', ''/C='' @ CSR_COUNTRY env @ ''/ST=/L=/O=/CN='' @ domain]"

definition sign_command :: "string \<Rightarrow> string \<Rightarrow> string \<Rightarrow> string list" where
  "sign_command ssl_key ssl_certificate csr_path =
     [''openssl'', ''x509'', ''-req'', ''-days'', ''365'', ''-in'', csr_path,
      ''-signkey'', ssl_key, ''-out'', ssl_certificate]"

definition ensure_ssl_certificate_exists ::
  "collab \<Rightarrow> string \<Rightarrow> string \<Rightarrow> string \<Rightarrow> string \<Rightarrow> env \<Rightarrow> world \<Rightarrow> (error + unit) \<times> world" where
  "ensure_ssl_certificate_exists c domain ssl_key ssl_certificate csr_path env w =
     (if domain = PRIMARY_HOSTNAME env then (Inr (), w)
      else if ssl_certificate = path_join (STORAGE_ROOT env) [''ssl/ssl_certificate.pem'']
           then (Inr (), w)
      else if path_exists w ssl_certificate then (Inr (), w)
      else (case makedirs c (dirname ssl_certificate) w of
              (Inl e, w1) \<Rightarrow> (Inl e, w1)
            | (Inr u, w1) \<Rightarrow>
               (case shell c (csr_command domain ssl_key csr_path env) w1 of
                  (Inl e, w2) \<Rightarrow> (Inl e, w2)
                | (Inr u, w2) \<Rightarrow> shell c (sign_command ssl_key ssl_certificate csr_path) w2)))"

section \<open>Configuration assembly\<close>

text \<open>Lines 84 to 88: the four replacements, each applied to the result of the one before.\<close>

definition substitute :: "string \<Rightarrow> string \<Rightarrow> string \<Rightarrow> string \<Rightarrow> string \<Rightarrow> string" where
  "substitute template domain root ssl_key ssl_certificate =
     (let nginx_conf = template;
          nginx_conf = replace ''$HOSTNAME'' domain nginx_conf;
          nginx_conf = replace ''$ROOT'' root nginx_conf;
          nginx_conf = replace ''$SSL_KEY'' ssl_key nginx_conf;
          nginx_conf = replace ''$SSL_CERTIFICATE'' ssl_certificate nginx_conf
      in nginx_conf)"

text \<open>
  The two operations of lines 95 to 98 on a value of the overlay: \<^verbatim>\<open>k in v\<close> and \<^verbatim>\<open>v[k]\<close>
  for a string \<^verbatim>\<open>k\<close>. Membership in a scalar that is no string raises, in a string it is
  the substring test, in a sequence the search for an equal element, in a mapping the search
  for the key; only a mapping can be indexed by a string.
\<close>

fun py_in :: "string \<Rightarrow> yaml \<Rightarrow> error + bool" where
  "py_in k (Scalar t) = Inl TypeError"
| "py_in k (YStr s) = Inr (contains_str k s)"
| "py_in k (YSeq xs) = Inr (YStr k \<in> set xs)"
| "py_in k (YMap m) = Inr (map_of m k \<noteq> None)"

fun py_getitem :: "yaml \<Rightarrow> string \<Rightarrow> error + yaml" where
  "py_getitem (YMap m) k = (case map_of m k of None \<Rightarrow> Inl KeyError | Some v \<Rightarrow> Inr v)"
| "py_getitem v k = Inl TypeError"

text \<open>The text that \<^verbatim>\<open>%s\<close> puts in for a value.\<close>

fun py_format :: "collab \<Rightarrow> yaml \<Rightarrow> string" where
  "py_format c (YStr s) = s"
| "py_format c (Scalar t) = t"
| "py_format c v = py_str c v"

text \<open>
  Lines 91 to 98: the parts of the text with the user's customisation added to the second
  part. The augmented assignment reads \<^verbatim>\<open>nginx_conf_parts[1]\<close> first, which raises when the
  list has fewer than two elements, and evaluates its right-hand side after that.
\<close>

definition add_customizations ::
  "collab \<Rightarrow> string \<Rightarrow> env \<Rightarrow> world \<Rightarrow> string list \<Rightarrow> error + string list" where
  "add_customizations c domain env w nginx_conf_parts =
     (let nginx_conf_custom_fn = path_join (STORAGE_ROOT env) [''www/custom.yaml'']
      in if path_exists w nginx_conf_custom_fn
         then (case read_file c w nginx_conf_custom_fn of
                 Inl e \<Rightarrow> Inl e
               | Inr text \<Rightarrow>
                  (case rtyaml_load c text of
                     None \<Rightarrow> Inl YAMLError
                   | Some yaml \<Rightarrow>
                      (case py_in domain yaml of
                         Inl e \<Rightarrow> Inl e
                       | Inr False \<Rightarrow> Inr nginx_conf_parts
                       | Inr True \<Rightarrow>
                          (case py_getitem yaml domain of
                             Inl e \<Rightarrow> Inl e
                           | Inr entry \<Rightarrow>
                              (case py_in ''proxy'' entry of
                                 Inl e \<Rightarrow> Inl e
                               | Inr False \<Rightarrow> Inr nginx_conf_parts
                               | Inr True \<Rightarrow>
                                  if length nginx_conf_parts < 2 then Inl IndexError
                                  else (case py_getitem entry ''proxy'' of
                                          Inl e \<Rightarrow> Inl e
                                        | Inr target \<Rightarrow>
                                           Inr (nginx_conf_parts
                                                [1 := nginx_conf_parts ! 1
                                                      @ proxy_block (py_format c target)])))))))
         else Inr nginx_conf_parts)"

definition make_domain_config ::
  "collab \<Rightarrow> string \<Rightarrow> string \<Rightarrow> env \<Rightarrow> world \<Rightarrow> (error + string) \<times> world" where
  "make_domain_config c domain template env w =
     (let root = get_web_root c domain env w;
          (ssl_key, ssl_certificate, csr_path) = get_domain_ssl_files c domain env w
      in case ensure_ssl_certificate_exists c domain ssl_key ssl_certificate csr_path env w of
           (Inl e, w1) \<Rightarrow> (Inl e, w1)
         | (Inr u, w1) \<Rightarrow>
            (let nginx_conf = substitute template domain root ssl_key ssl_certificate;
                 nginx_conf_parts = re_split marker nginx_conf
             in case add_customizations c domain env w1 nginx_conf_parts of
                  Inl e \<Rightarrow> (Inl e, w1)
                | Inr nginx_conf_parts \<Rightarrow> (Inr (concat nginx_conf_parts), w1)))"

text \<open>The loop of lines 47 and 48 over the web domains.\<close>

fun add_domain_configs ::
  "collab \<Rightarrow> string \<Rightarrow> env \<Rightarrow> string list \<Rightarrow> string \<Rightarrow> world \<Rightarrow> (error + string) \<times> world" where
  "add_domain_configs c template env [] nginx_conf w = (Inr nginx_conf, w)"
| "add_domain_configs c template env (domain # rest) nginx_conf w =
     (case make_domain_config c domain template env w of
        (Inl e, w1) \<Rightarrow> (Inl e, w1)
      | (Inr block, w1) \<Rightarrow> add_domain_configs c template env rest (nginx_conf @ block) w1)"

text \<open>Lines 43 to 48: the text of the whole configuration.\<close>

definition build_nginx_conf :: "collab \<Rightarrow> env \<Rightarrow> world \<Rightarrow> (error + string) \<times> world" where
  "build_nginx_conf c env w =
     (case read_file c w (path_join (module_dir c) [''../conf/nginx-top.conf'']) of
        Inl e \<Rightarrow> (Inl e, w)
      | Inr nginx_conf \<Rightarrow>
         (case read_file c w (path_join (module_dir c) [''../conf/nginx.conf'']) of
            Inl e \<Rightarrow> (Inl e, w)
          | Inr template \<Rightarrow>
             add_domain_configs c template env (get_web_domains c env) nginx_conf w))"

definition nginx_conf_fn :: string where
  "nginx_conf_fn = ''/etc/nginx/conf.d/local.conf''"

definition reload_command :: "string list" where
  "reload_command = [''/usr/sbin/service'', ''nginx'', ''reload'']"

text \<open>Lines 57 to 67: save the file, reload the server.\<close>

definition save_and_reload :: "collab \<Rightarrow> string \<Rightarrow> world \<Rightarrow> (error + string) \<times> world" where
  "save_and_reload c nginx_conf w =
     (case write_file c nginx_conf_fn nginx_conf w of
        (Inl e, w1) \<Rightarrow> (Inl e, w1)
      | (Inr u, w1) \<Rightarrow>
         (case shell c reload_command w1 of
            (Inl e, w2) \<Rightarrow> (Inl e, w2)
          | (Inr u, w2) \<Rightarrow> (Inr ''web updated\<newline>'', w2)))"

definition do_web_update :: "collab \<Rightarrow> env \<Rightarrow> world \<Rightarrow> (error + string) \<times> world" where
  "do_web_update c env w =
     (case build_nginx_conf c env w of
        (Inl e, w1) \<Rightarrow> (Inl e, w1)
      | (Inr nginx_conf, w1) \<Rightarrow>
         if path_exists w1 nginx_conf_fn
         then (case read_file c w1 nginx_conf_fn of
                 Inl e \<Rightarrow> (Inl e, w1)
               | Inr old \<Rightarrow>
                  if old = nginx_conf then (Inr [], w1)
                  else save_and_reload c nginx_conf w1)
         else save_and_reload c nginx_conf w1)"

section \<open>Observations on the log\<close>

definition execs :: "world \<Rightarrow> string list list" where
  "execs w = [args. Exec args \<leftarrow> log w]"

definition writes :: "world \<Rightarrow> (string \<times> string) list" where
  "writes w = [(p, t). Write p t \<leftarrow> log w]"

section \<open>Example configurations\<close>

text \<open>The template of the two rendering examples of section 8 of the specification.\<close>

definition example_template :: string where
  "example_template =
     ''$HOSTNAME|$ROOT|$SSL_KEY|$SSL_CERTIFICATE\<newline># ADDITIONAL DIRECTIVES HERE\<newline>tail''"

definition ex_env :: env where
  "ex_env = \<lparr>PRIMARY_HOSTNAME = ''box.example.com'', STORAGE_ROOT = ''/home/user-data'',
             CSR_COUNTRY = ''US''\<rparr>"

definition ex_overlay :: yaml where
  "ex_overlay = YMap [(''example.com'', YMap [(''proxy'', YStr ''http://localhost:8080'')])]"

text \<open>
  A box with three mail domains; \<^verbatim>\<open>away.net\<close> is served elsewhere, \<^verbatim>\<open>other.org\<close> has a
  local override and is covered by the primary certificate; every process exits with zero
  and the operating system refuses nothing. An empty overlay file is the null document.
\<close>

definition ex_collab :: collab where
  "ex_collab =
     \<lparr>get_mail_domains = (\<lambda>e. {|''example.com'', ''other.org'', ''away.net''|}),
      get_custom_dns_config =
        (\<lambda>e. [(''away.net'', Str ''203.0.113.7''), (''other.org'', Dict [''A'' \<mapsto> ''local''])]),
      safe_domain_name = (\<lambda>name. name),
      check_certificate = (\<lambda>domain cert w. if domain = ''other.org'' then ''OK'' else ''no match''),
      exit_ok = (\<lambda>args w. True),
      rtyaml_load = (\<lambda>text. if text = ''proxy'' then Some ex_overlay
                             else if text = [] then Some (Scalar ''None'') else None),
      py_str = (\<lambda>v. ''object''),
      os_ok = (\<lambda>call w. True),
      module_dir = ''/usr/local/lib/mailinabox/management''\<rparr>"


text \<open>The same box where every external process exits with a non-zero status.\<close>

definition failing_collab :: collab where
  "failing_collab = ex_collab\<lparr>exit_ok := (\<lambda>args w. False)\<rparr>"


text \<open>
  A box without mail domains, whose overlay gives the primary hostname a proxy target that
  ends in a carriage return.
\<close>

definition solo_collab :: collab where
  "solo_collab =
     ex_collab\<lparr>get_mail_domains := (\<lambda>e. {||}),
               rtyaml_load := (\<lambda>text. if text = ''cr''
                  then Some (YMap [(''box.example.com'',
                          YMap [(''proxy'', YStr (''http://localhost:8080'' @ [CHR 0x0D]))])])
                  else None)\<rparr>"

text \<open>
  A file tree with the two templates, a key of its own for \<^verbatim>\<open>mail.example.net\<close>, the
  directory of the configuration file and an outdated configuration file.
\<close>

definition ex_world :: world where
  "ex_world =
     \<lparr>nodes = [''/usr/local/lib/mailinabox/management/../conf/nginx-top.conf'' \<mapsto> File ''## top\<newline>'',
               ''/usr/local/lib/mailinabox/management/../conf/nginx.conf'' \<mapsto> File example_template,
               ''/home/user-data/ssl/mail.example.net/private_key.pem'' \<mapsto> File ''key'',
               ''/etc/nginx/conf.d'' \<mapsto> Dir,
               ''/etc/nginx/conf.d/local.conf'' \<mapsto> File ''stale''],
      log = []\<rparr>"

text \<open>The same tree with an overlay file, and with an empty overlay file.\<close>

definition overlay_world :: world where
  "overlay_world =
     ex_world\<lparr>nodes := (nodes ex_world)(''/home/user-data/www/custom.yaml'' \<mapsto> File ''proxy'')\<rparr>"

definition null_overlay_world :: world where
  "null_overlay_world =
     ex_world\<lparr>nodes := (nodes ex_world)(''/home/user-data/www/custom.yaml'' \<mapsto> File [])\<rparr>"

text \<open>The same tree with a regular file where the directory of a certificate should be.\<close>

definition blocked_world :: world where
  "blocked_world =
     ex_world\<lparr>nodes := (nodes ex_world)(''/home/user-data/ssl/example.com'' \<mapsto> File [])\<rparr>"

text \<open>The same tree with a short template, for the examples of a whole update.\<close>

definition update_world :: world where
  "update_world =
     ex_world\<lparr>nodes := (nodes ex_world)
        (''/usr/local/lib/mailinabox/management/../conf/nginx.conf''
           \<mapsto> File ''server_name $HOSTNAME; root $ROOT;\<newline>'')\<rparr>"

text \<open>That tree without the directory of the configuration file.\<close>

definition no_conf_dir_world :: world where
  "no_conf_dir_world =
     update_world\<lparr>nodes := (nodes update_world)
        (''/etc/nginx/conf.d'' := None, ''/etc/nginx/conf.d/local.conf'' := None)\<rparr>"

text \<open>
  That tree with the configuration that \<open>solo_collab\<close> builds already in place, once as it
  is built and once with the line ends of another system.
\<close>

definition current_world :: world where
  "current_world =
     update_world\<lparr>nodes := (nodes update_world)
        (''/etc/nginx/conf.d/local.conf'' \<mapsto>
           File (''## top\<newline>server_name box.example.com; root /home/user-data/www/default;\<newline>''))\<rparr>"


text \<open>
  A tree with a template that has the marker line, the overlay file of \<open>solo_collab\<close> and
  no configuration file yet.
\<close>

definition cr_world :: world where
  "cr_world =
     \<lparr>nodes = [''/usr/local/lib/mailinabox/management/../conf/nginx-top.conf'' \<mapsto> File ''## top\<newline>'',
               ''/usr/local/lib/mailinabox/management/../conf/nginx.conf''
                  \<mapsto> File ''server_name $HOSTNAME;\<newline># ADDITIONAL DIRECTIVES HERE\<newline>'',
               ''/home/user-data/www/custom.yaml'' \<mapsto> File ''cr'',
               ''/etc/nginx/conf.d'' \<mapsto> Dir],
      log = []\<rparr>"

text \<open>
  A box whose primary hostname is \<^verbatim>\<open>example.com\<close> and whose storage root has the text of a
  placeholder in its name.
\<close>

definition dollar_env :: env where
  "dollar_env = \<lparr>PRIMARY_HOSTNAME = ''example.com'', STORAGE_ROOT = ''/srv/$SSL_KEY'',
                 CSR_COUNTRY = ''US''\<rparr>"

text \<open>The same box with the text of the last placeholder in the name of the storage root.\<close>

definition dollar_cert_env :: env where
  "dollar_cert_env = \<lparr>PRIMARY_HOSTNAME = ''example.com'',
                      STORAGE_ROOT = ''/srv/$SSL_CERTIFICATE'', CSR_COUNTRY = ''US''\<rparr>"

text \<open>The same box with a storage root that has a dollar sign but no placeholder name.\<close>

definition data_env :: env where
  "data_env = \<lparr>PRIMARY_HOSTNAME = ''example.com'', STORAGE_ROOT = ''/srv/$data'',
               CSR_COUNTRY = ''US''\<rparr>"

section \<open>Domain selection: proofs\<close>










section \<open>SSL material: proofs\<close>

lemma domain_cert_neq_primary:
  "path_join a [''ssl/'' @ x @ ''/ssl_certificate.pem''] \<noteq> path_join a [''ssl/ssl_certificate.pem'']"
proof -
  have "length (x @ ''/ssl_certificate.pem'') \<noteq> length ''ssl_certificate.pem''" by simp
  then have "x @ ''/ssl_certificate.pem'' \<noteq> ''ssl_certificate.pem''" by metis
  then show ?thesis
    by (simp add: path_join_def join2_def)
qed

text \<open>
  Claim C7. For the primary hostname \<open>get_domain_ssl_files\<close> returns the shared key path,
  the primary certificate path and the primary CSR path, whatever the file tree holds; for
  any other domain the key is the domain's own key file when that file exists, and the shared
  key otherwise.
\<close>

theorem primary_ssl_files:
  "get_domain_ssl_files c (PRIMARY_HOSTNAME env) env w =
     (path_join (STORAGE_ROOT env) [''ssl/ssl_private_key.pem''],
      path_join (STORAGE_ROOT env) [''ssl/ssl_certificate.pem''],
      path_join (STORAGE_ROOT env) [''ssl/ssl_cert_sign_req.csr''])
   \<and> (domain \<noteq> PRIMARY_HOSTNAME env \<longrightarrow>
        fst (get_domain_ssl_files c domain env w) =
          (if path_exists w (path_join (STORAGE_ROOT env)
                               [''ssl/'' @ safe_domain_name c domain @ ''/private_key.pem''])
           then path_join (STORAGE_ROOT env)
                  [''ssl/'' @ safe_domain_name c domain @ ''/private_key.pem'']
           else path_join (STORAGE_ROOT env) [''ssl/ssl_private_key.pem'']))"
  by (simp add: get_domain_ssl_files_def Let_def)

theorem primary_ssl_files_witness:
  "get_domain_ssl_files ex_collab ''box.example.com'' ex_env
       (ex_world\<lparr>nodes := (nodes ex_world)
           (''/home/user-data/ssl/box.example.com/private_key.pem'' \<mapsto> File ''key'')\<rparr>)
     = (''/home/user-data/ssl/ssl_private_key.pem'', ''/home/user-data/ssl/ssl_certificate.pem'',
        ''/home/user-data/ssl/ssl_cert_sign_req.csr'')
   \<and> ''mail.example.net'' \<noteq> PRIMARY_HOSTNAME ex_env
   \<and> path_exists ex_world ''/home/user-data/ssl/mail.example.net/private_key.pem''
   \<and> fst (get_domain_ssl_files ex_collab ''mail.example.net'' ex_env ex_world)
     = ''/home/user-data/ssl/mail.example.net/private_key.pem''"
proof -
  define w where "w = ex_world\<lparr>nodes := (nodes ex_world)
           (''/home/user-data/ssl/box.example.com/private_key.pem'' \<mapsto> File ''key'')\<rparr>"
  have p: "PRIMARY_HOSTNAME ex_env = ''box.example.com''"
    and s: "STORAGE_ROOT ex_env = ''/home/user-data''"
    and n: "safe_domain_name ex_collab ''mail.example.net'' = ''mail.example.net''"
    by (simp_all add: ex_env_def ex_collab_def)
  have j: "path_join ''/home/user-data'' [''ssl/ssl_private_key.pem'']
             = ''/home/user-data/ssl/ssl_private_key.pem''"
     "path_join ''/home/user-data'' [''ssl/ssl_certificate.pem'']
             = ''/home/user-data/ssl/ssl_certificate.pem''"
     "path_join ''/home/user-data'' [''ssl/ssl_cert_sign_req.csr'']
             = ''/home/user-data/ssl/ssl_cert_sign_req.csr''"
     "path_join ''/home/user-data'' [''ssl/'' @ ''mail.example.net'' @ ''/private_key.pem'']
             = ''/home/user-data/ssl/mail.example.net/private_key.pem''"
    by (simp_all add: path_join_def join2_def)
  have d: "''mail.example.net'' \<noteq> PRIMARY_HOSTNAME ex_env"
    by (simp add: p)
  have e: "path_exists ex_world ''/home/user-data/ssl/mail.example.net/private_key.pem''"
    by (simp add: path_exists_def ex_world_def)
  from primary_ssl_files[of ex_collab ex_env w "''mail.example.net''"]
  have a: "get_domain_ssl_files ex_collab ''box.example.com'' ex_env w
     = (''/home/user-data/ssl/ssl_private_key.pem'', ''/home/user-data/ssl/ssl_certificate.pem'',
        ''/home/user-data/ssl/ssl_cert_sign_req.csr'')"
    by (simp only: p s j)
  from primary_ssl_files[of ex_collab ex_env ex_world "''mail.example.net''"] d e
  have b: "fst (get_domain_ssl_files ex_collab ''mail.example.net'' ex_env ex_world)
     = ''/home/user-data/ssl/mail.example.net/private_key.pem''"
    by (simp only: s n j) simp
  from a b d e show ?thesis
    unfolding w_def by blast
qed

text \<open>
  Claim C8. For a domain other than the primary hostname, the certificate is the primary
  certificate exactly when the domain has no key file of its own and the coverage checker
  answers \<^verbatim>\<open>OK\<close> for the primary certificate; otherwise it is the domain's own certificate
  path. The CSR path is always the domain's own.
\<close>

theorem nonprimary_ssl_files:
  assumes "domain \<noteq> PRIMARY_HOSTNAME env"
  shows "(fst (snd (get_domain_ssl_files c domain env w))
            = path_join (STORAGE_ROOT env) [''ssl/ssl_certificate.pem'']
          \<longleftrightarrow> \<not> path_exists w (path_join (STORAGE_ROOT env)
                               [''ssl/'' @ safe_domain_name c domain @ ''/private_key.pem''])
              \<and> check_certificate c domain
                   (path_join (STORAGE_ROOT env) [''ssl/ssl_certificate.pem'']) w = ''OK'')
       \<and> (fst (snd (get_domain_ssl_files c domain env w))
            \<noteq> path_join (STORAGE_ROOT env) [''ssl/ssl_certificate.pem'']
          \<longrightarrow> fst (snd (get_domain_ssl_files c domain env w))
            = path_join (STORAGE_ROOT env)
                [''ssl/'' @ safe_domain_name c domain @ ''/ssl_certificate.pem''])
       \<and> snd (snd (get_domain_ssl_files c domain env w))
            = path_join (STORAGE_ROOT env)
                [''ssl/'' @ safe_domain_name c domain @ ''/certificate_signing_request.csr'']"
  using assms domain_cert_neq_primary[of "STORAGE_ROOT env" "safe_domain_name c domain"]
  by (simp add: get_domain_ssl_files_def Let_def)

theorem nonprimary_ssl_files_witness:
  "''other.org'' \<noteq> PRIMARY_HOSTNAME ex_env
   \<and> fst (snd (get_domain_ssl_files ex_collab ''other.org'' ex_env ex_world))
       = ''/home/user-data/ssl/ssl_certificate.pem''
   \<and> snd (snd (get_domain_ssl_files ex_collab ''other.org'' ex_env ex_world))
       = ''/home/user-data/ssl/other.org/certificate_signing_request.csr''
   \<and> ''example.com'' \<noteq> PRIMARY_HOSTNAME ex_env
   \<and> fst (snd (get_domain_ssl_files ex_collab ''example.com'' ex_env ex_world))
       = ''/home/user-data/ssl/example.com/ssl_certificate.pem''"
proof -
  have s: "STORAGE_ROOT ex_env = ''/home/user-data''"
    and n: "safe_domain_name ex_collab ''other.org'' = ''other.org''"
           "safe_domain_name ex_collab ''example.com'' = ''example.com''"
    by (simp_all add: ex_env_def ex_collab_def)
  have j: "path_join ''/home/user-data'' [''ssl/ssl_certificate.pem'']
             = ''/home/user-data/ssl/ssl_certificate.pem''"
     "path_join ''/home/user-data'' [''ssl/'' @ ''other.org'' @ ''/certificate_signing_request.csr'']
             = ''/home/user-data/ssl/other.org/certificate_signing_request.csr''"
     "path_join ''/home/user-data'' [''ssl/'' @ ''example.com'' @ ''/ssl_certificate.pem'']
             = ''/home/user-data/ssl/example.com/ssl_certificate.pem''"
    by (simp_all add: path_join_def join2_def)
  have d1: "''other.org'' \<noteq> PRIMARY_HOSTNAME ex_env"
    and d2: "''example.com'' \<noteq> PRIMARY_HOSTNAME ex_env"
    by (simp_all add: ex_env_def)
  have k1: "\<not> path_exists ex_world (path_join (STORAGE_ROOT ex_env)
                 [''ssl/'' @ safe_domain_name ex_collab ''other.org'' @ ''/private_key.pem''])
            \<and> check_certificate ex_collab ''other.org''
                 (path_join (STORAGE_ROOT ex_env) [''ssl/ssl_certificate.pem'']) ex_world = ''OK''"
    by code_simp
  have k2: "\<not> (\<not> path_exists ex_world (path_join (STORAGE_ROOT ex_env)
                 [''ssl/'' @ safe_domain_name ex_collab ''example.com'' @ ''/private_key.pem''])
            \<and> check_certificate ex_collab ''example.com''
                 (path_join (STORAGE_ROOT ex_env) [''ssl/ssl_certificate.pem'']) ex_world = ''OK'')"
    by code_simp
  from nonprimary_ssl_files[OF d1, of ex_collab ex_world] k1
  have a: "fst (snd (get_domain_ssl_files ex_collab ''other.org'' ex_env ex_world))
       = path_join (STORAGE_ROOT ex_env) [''ssl/ssl_certificate.pem'']"
    and b: "snd (snd (get_domain_ssl_files ex_collab ''other.org'' ex_env ex_world))
       = path_join (STORAGE_ROOT ex_env)
           [''ssl/'' @ safe_domain_name ex_collab ''other.org'' @ ''/certificate_signing_request.csr'']"
    by blast+
  from nonprimary_ssl_files[OF d2, of ex_collab ex_world] k2
  have e: "fst (snd (get_domain_ssl_files ex_collab ''example.com'' ex_env ex_world))
       = path_join (STORAGE_ROOT ex_env)
           [''ssl/'' @ safe_domain_name ex_collab ''example.com'' @ ''/ssl_certificate.pem'']"
    by blast
  note a' = a[unfolded s n j] and b' = b[unfolded s n j] and e' = e[unfolded s n j]
  from a' b' e' d1 d2 show ?thesis
    by blast
qed

lemma makedirs_execs: "execs (snd (makedirs c name w)) = execs w"
  by (simp add: makedirs_def execs_def)

lemma makedirs_fails:
  "name = [] \<or> (\<not> root_like name \<and> is_file w name) \<Longrightarrow> fst (makedirs c name w) \<noteq> Inr ()"
  by (auto simp: makedirs_def is_file_def split: option.splits node.splits)

text \<open>
  Claim C6, as stated: \<open>ensure_ssl_certificate_exists\<close> starts the external tool whenever
  the three conditions hold, and then exactly twice. It does not: when the first process
  exits with a non-zero status the error is raised after one invocation, and when a regular
  file stands where the directory of the certificate should be, \<^verbatim>\<open>os.makedirs\<close> raises
  before any invocation although the three conditions hold.
\<close>

theorem fewer_than_two_invocations:
  "''example.com'' \<noteq> PRIMARY_HOSTNAME ex_env
   \<and> ''/home/user-data/ssl/example.com/ssl_certificate.pem''
       \<noteq> path_join (STORAGE_ROOT ex_env) [''ssl/ssl_certificate.pem'']
   \<and> \<not> path_exists ex_world ''/home/user-data/ssl/example.com/ssl_certificate.pem''
   \<and> execs ex_world = []
   \<and> execs (snd (ensure_ssl_certificate_exists failing_collab ''example.com''
          ''/home/user-data/ssl/ssl_private_key.pem''
          ''/home/user-data/ssl/example.com/ssl_certificate.pem''
          ''/home/user-data/ssl/example.com/certificate_signing_request.csr''
          ex_env ex_world))
       = [[''openssl'', ''req'', ''-new'', ''-key'', ''/home/user-data/ssl/ssl_private_key.pem'',
           ''-out'', ''/home/user-data/ssl/example.com/certificate_signing_request.csr'',
           ''-subj'', ''/C=US/ST=/L=/O=/CN=example.com'']]
   \<and> fst (ensure_ssl_certificate_exists failing_collab ''example.com''
          ''/home/user-data/ssl/ssl_private_key.pem''
          ''/home/user-data/ssl/example.com/ssl_certificate.pem''
          ''/home/user-data/ssl/example.com/certificate_signing_request.csr''
          ex_env ex_world)
       = Inl (CalledProcessError
          [''openssl'', ''req'', ''-new'', ''-key'', ''/home/user-data/ssl/ssl_private_key.pem'',
           ''-out'', ''/home/user-data/ssl/example.com/certificate_signing_request.csr'',
           ''-subj'', ''/C=US/ST=/L=/O=/CN=example.com''])
   \<and> \<not> path_exists blocked_world ''/home/user-data/ssl/example.com/ssl_certificate.pem''
   \<and> dirname ''/home/user-data/ssl/example.com/ssl_certificate.pem'' = ''/home/user-data/ssl/example.com''
   \<and> nodes blocked_world ''/home/user-data/ssl/example.com'' = Some (File [])
   \<and> execs blocked_world = []
   \<and> execs (snd (ensure_ssl_certificate_exists ex_collab ''example.com''
          ''/home/user-data/ssl/ssl_private_key.pem''
          ''/home/user-data/ssl/example.com/ssl_certificate.pem''
          ''/home/user-data/ssl/example.com/certificate_signing_request.csr''
          ex_env blocked_world)) = []
   \<and> fst (ensure_ssl_certificate_exists ex_collab ''example.com''
          ''/home/user-data/ssl/ssl_private_key.pem''
          ''/home/user-data/ssl/example.com/ssl_certificate.pem''
          ''/home/user-data/ssl/example.com/certificate_signing_request.csr''
          ex_env blocked_world)
       = Inl (FileExistsError ''/home/user-data/ssl/example.com'')"
  by code_simp

text \<open>
  Claim C6, amended. \<open>ensure_ssl_certificate_exists\<close> returns without error, with no
  invocation and the world as it was, unless the domain is not the primary hostname, the
  certificate path is not the primary certificate path and nothing exists at the
  certificate path. When these three conditions hold it first creates the directory of the
  certificate; if that raises (as it does for an empty directory path or a regular file at
  that path), the error is raised and there is no invocation. Otherwise the first invocation
  asks for a CSR with the country of the configuration and the domain as common name; if
  that process exits with a non-zero status the error is raised and there is no second
  invocation; otherwise a second invocation self-signs a certificate from the CSR for 365
  days, and its exit status decides the result.
\<close>

theorem ensure_ssl_certificate_exists_invocations:
  "(\<not> (domain \<noteq> PRIMARY_HOSTNAME env
        \<and> ssl_certificate \<noteq> path_join (STORAGE_ROOT env) [''ssl/ssl_certificate.pem'']
        \<and> \<not> path_exists w ssl_certificate)
     \<longrightarrow> ensure_ssl_certificate_exists c domain ssl_key ssl_certificate csr_path env w
           = (Inr (), w))
   \<and> (domain \<noteq> PRIMARY_HOSTNAME env
        \<and> ssl_certificate \<noteq> path_join (STORAGE_ROOT env) [''ssl/ssl_certificate.pem'']
        \<and> \<not> path_exists w ssl_certificate
     \<longrightarrow> (let csr = [''openssl'', ''req'', ''-new'', ''-key'', ssl_key, ''-out'', csr_path,
                      ''-subj'', ''/C='' @ CSR_COUNTRY env @ ''/ST=/L=/O=/CN='' @ domain];
              sign = [''openssl'', ''x509'', ''-req'', ''-days'', ''365'', ''-in'', csr_path,
                      ''-signkey'', ssl_key, ''-out'', ssl_certificate];
              made = fst (makedirs c (dirname ssl_certificate) w);
              w1 = snd (makedirs c (dirname ssl_certificate) w);
              w2 = w1\<lparr>log := log w1 @ [Exec csr]\<rparr>;
              r = fst (ensure_ssl_certificate_exists c domain ssl_key ssl_certificate
                         csr_path env w);
              w' = snd (ensure_ssl_certificate_exists c domain ssl_key ssl_certificate
                          csr_path env w)
          in if made \<noteq> Inr () then r = made \<and> execs w' = execs w
             else if \<not> exit_ok c csr w1
             then r = Inl (CalledProcessError csr) \<and> execs w' = execs w @ [csr]
             else execs w' = execs w @ [csr, sign]
                  \<and> r = (if exit_ok c sign w2 then Inr ()
                         else Inl (CalledProcessError sign))))
   \<and> (dirname ssl_certificate = []
        \<or> (\<not> root_like (dirname ssl_certificate) \<and> is_file w (dirname ssl_certificate))
     \<longrightarrow> fst (makedirs c (dirname ssl_certificate) w) \<noteq> Inr ())"
proof (intro conjI impI)
  assume "\<not> (domain \<noteq> PRIMARY_HOSTNAME env
        \<and> ssl_certificate \<noteq> path_join (STORAGE_ROOT env) [''ssl/ssl_certificate.pem'']
        \<and> \<not> path_exists w ssl_certificate)"
  then show "ensure_ssl_certificate_exists c domain ssl_key ssl_certificate csr_path env w
           = (Inr (), w)"
    by (auto simp: ensure_ssl_certificate_exists_def)
next
  assume "dirname ssl_certificate = []
        \<or> (\<not> root_like (dirname ssl_certificate) \<and> is_file w (dirname ssl_certificate))"
  then show "fst (makedirs c (dirname ssl_certificate) w) \<noteq> Inr ()"
    by (rule makedirs_fails)
next
  assume cond: "domain \<noteq> PRIMARY_HOSTNAME env
        \<and> ssl_certificate \<noteq> path_join (STORAGE_ROOT env) [''ssl/ssl_certificate.pem'']
        \<and> \<not> path_exists w ssl_certificate"
  obtain made w1 where m: "makedirs c (dirname ssl_certificate) w = (made, w1)"
    by (cases "makedirs c (dirname ssl_certificate) w") auto
  have e1: "execs w1 = execs w"
    using makedirs_execs[of c "dirname ssl_certificate" w] m by simp
  show "let csr = [''openssl'', ''req'', ''-new'', ''-key'', ssl_key, ''-out'', csr_path,
                      ''-subj'', ''/C='' @ CSR_COUNTRY env @ ''/ST=/L=/O=/CN='' @ domain];
              sign = [''openssl'', ''x509'', ''-req'', ''-days'', ''365'', ''-in'', csr_path,
                      ''-signkey'', ssl_key, ''-out'', ssl_certificate];
              made = fst (makedirs c (dirname ssl_certificate) w);
              w1 = snd (makedirs c (dirname ssl_certificate) w);
              w2 = w1\<lparr>log := log w1 @ [Exec csr]\<rparr>;
              r = fst (ensure_ssl_certificate_exists c domain ssl_key ssl_certificate
                         csr_path env w);
              w' = snd (ensure_ssl_certificate_exists c domain ssl_key ssl_certificate
                          csr_path env w)
          in if made \<noteq> Inr () then r = made \<and> execs w' = execs w
             else if \<not> exit_ok c csr w1
             then r = Inl (CalledProcessError csr) \<and> execs w' = execs w @ [csr]
             else execs w' = execs w @ [csr, sign]
                  \<and> r = (if exit_ok c sign w2 then Inr ()
                         else Inl (CalledProcessError sign))"
  proof (cases made)
    case (Inl e)
    with cond m e1 show ?thesis
      by (simp add: ensure_ssl_certificate_exists_def Let_def)
  next
    case (Inr u)
    with cond m e1 show ?thesis
      by (auto simp: ensure_ssl_certificate_exists_def shell_def csr_command_def
            sign_command_def execs_def Let_def)
  qed
qed

theorem ensure_ssl_certificate_exists_invocations_witness:
  "fst (ensure_ssl_certificate_exists ex_collab ''box.example.com''
          ''/home/user-data/ssl/ssl_private_key.pem'' ''/home/user-data/ssl/ssl_certificate.pem''
          ''/home/user-data/ssl/ssl_cert_sign_req.csr'' ex_env ex_world) = Inr ()
   \<and> execs (snd (ensure_ssl_certificate_exists ex_collab ''box.example.com''
          ''/home/user-data/ssl/ssl_private_key.pem'' ''/home/user-data/ssl/ssl_certificate.pem''
          ''/home/user-data/ssl/ssl_cert_sign_req.csr'' ex_env ex_world)) = []
   \<and> ''example.com'' \<noteq> PRIMARY_HOSTNAME ex_env
   \<and> ''/home/user-data/ssl/example.com/ssl_certificate.pem''
       \<noteq> path_join (STORAGE_ROOT ex_env) [''ssl/ssl_certificate.pem'']
   \<and> \<not> path_exists ex_world ''/home/user-data/ssl/example.com/ssl_certificate.pem''
   \<and> fst (makedirs ex_collab (dirname ''/home/user-data/ssl/example.com/ssl_certificate.pem'') ex_world) = Inr ()
   \<and> fst (ensure_ssl_certificate_exists ex_collab ''example.com''
          ''/home/user-data/ssl/ssl_private_key.pem''
          ''/home/user-data/ssl/example.com/ssl_certificate.pem''
          ''/home/user-data/ssl/example.com/certificate_signing_request.csr''
          ex_env ex_world) = Inr ()
   \<and> execs (snd (ensure_ssl_certificate_exists ex_collab ''example.com''
          ''/home/user-data/ssl/ssl_private_key.pem''
          ''/home/user-data/ssl/example.com/ssl_certificate.pem''
          ''/home/user-data/ssl/example.com/certificate_signing_request.csr''
          ex_env ex_world))
       = [[''openssl'', ''req'', ''-new'', ''-key'', ''/home/user-data/ssl/ssl_private_key.pem'',
           ''-out'', ''/home/user-data/ssl/example.com/certificate_signing_request.csr'',
           ''-subj'', ''/C=US/ST=/L=/O=/CN=example.com''],
          [''openssl'', ''x509'', ''-req'', ''-days'', ''365'', ''-in'',
           ''/home/user-data/ssl/example.com/certificate_signing_request.csr'',
           ''-signkey'', ''/home/user-data/ssl/ssl_private_key.pem'', ''-out'',
           ''/home/user-data/ssl/example.com/ssl_certificate.pem'']]
   \<and> is_file blocked_world (dirname ''/home/user-data/ssl/example.com/ssl_certificate.pem'')
   \<and> fst (makedirs ex_collab (dirname ''/home/user-data/ssl/example.com/ssl_certificate.pem'') blocked_world) \<noteq> Inr ()
   \<and> nodes (snd (ensure_ssl_certificate_exists ex_collab ''example.com''
          ''/home/user-data/ssl/ssl_private_key.pem''
          ''/home/user-data/ssl/example.com/ssl_certificate.pem''
          ''/home/user-data/ssl/example.com/certificate_signing_request.csr''
          ex_env ex_world)) ''/home/user-data/ssl/example.com'' = Some Dir
   \<and> nodes (snd (ensure_ssl_certificate_exists ex_collab ''example.com''
          ''/home/user-data/ssl/ssl_private_key.pem''
          ''/home/user-data/ssl/example.com/ssl_certificate.pem''
          ''/home/user-data/ssl/example.com/certificate_signing_request.csr''
          ex_env ex_world)) ''/home/user-data/ssl'' = Some Dir
   \<and> fst (makedirs ex_collab ''/home/user-data/ssl/example.com/live'' blocked_world)
       = Inl (NotADirectoryError ''/home/user-data/ssl/example.com/live'')"
proof -
  have pin: "nodes (snd (ensure_ssl_certificate_exists ex_collab ''example.com''
          ''/home/user-data/ssl/ssl_private_key.pem''
          ''/home/user-data/ssl/example.com/ssl_certificate.pem''
          ''/home/user-data/ssl/example.com/certificate_signing_request.csr''
          ex_env ex_world)) ''/home/user-data/ssl/example.com'' = Some Dir
   \<and> nodes (snd (ensure_ssl_certificate_exists ex_collab ''example.com''
          ''/home/user-data/ssl/ssl_private_key.pem''
          ''/home/user-data/ssl/example.com/ssl_certificate.pem''
          ''/home/user-data/ssl/example.com/certificate_signing_request.csr''
          ex_env ex_world)) ''/home/user-data/ssl'' = Some Dir
   \<and> fst (makedirs ex_collab ''/home/user-data/ssl/example.com/live'' blocked_world)
       = Inl (NotADirectoryError ''/home/user-data/ssl/example.com/live'')"
    by code_simp
  have p: "\<not> (''box.example.com'' \<noteq> PRIMARY_HOSTNAME ex_env
        \<and> ''/home/user-data/ssl/ssl_certificate.pem''
            \<noteq> path_join (STORAGE_ROOT ex_env) [''ssl/ssl_certificate.pem'']
        \<and> \<not> path_exists ex_world ''/home/user-data/ssl/ssl_certificate.pem'')"
    by code_simp
  have n: "''example.com'' \<noteq> PRIMARY_HOSTNAME ex_env
        \<and> ''/home/user-data/ssl/example.com/ssl_certificate.pem''
            \<noteq> path_join (STORAGE_ROOT ex_env) [''ssl/ssl_certificate.pem'']
        \<and> \<not> path_exists ex_world ''/home/user-data/ssl/example.com/ssl_certificate.pem''"
    by code_simp
  have mk: "fst (makedirs ex_collab (dirname ''/home/user-data/ssl/example.com/ssl_certificate.pem'') ex_world) = Inr ()"
    by code_simp
  have ok: "exit_ok ex_collab args w" for args w
    by (simp add: ex_collab_def)
  have e0: "execs ex_world = []" and cc: "CSR_COUNTRY ex_env = ''US''"
    by (simp_all add: execs_def ex_world_def ex_env_def)
  have bl: "is_file blocked_world (dirname ''/home/user-data/ssl/example.com/ssl_certificate.pem'')"
    by code_simp
  have nr: "\<not> root_like (dirname ''/home/user-data/ssl/example.com/ssl_certificate.pem'')"
    by code_simp
  from ensure_ssl_certificate_exists_invocations
         [of "''box.example.com''" ex_env "''/home/user-data/ssl/ssl_certificate.pem''" ex_world
             ex_collab "''/home/user-data/ssl/ssl_private_key.pem''"
             "''/home/user-data/ssl/ssl_cert_sign_req.csr''"] p
  have a: "ensure_ssl_certificate_exists ex_collab ''box.example.com''
          ''/home/user-data/ssl/ssl_private_key.pem'' ''/home/user-data/ssl/ssl_certificate.pem''
          ''/home/user-data/ssl/ssl_cert_sign_req.csr'' ex_env ex_world = (Inr (), ex_world)"
    by blast
  from ensure_ssl_certificate_exists_invocations
         [of "''example.com''" ex_env "''/home/user-data/ssl/example.com/ssl_certificate.pem''"
             ex_world ex_collab "''/home/user-data/ssl/ssl_private_key.pem''"
             "''/home/user-data/ssl/example.com/certificate_signing_request.csr''"] n
  have b: "fst (ensure_ssl_certificate_exists ex_collab ''example.com''
          ''/home/user-data/ssl/ssl_private_key.pem''
          ''/home/user-data/ssl/example.com/ssl_certificate.pem''
          ''/home/user-data/ssl/example.com/certificate_signing_request.csr''
          ex_env ex_world) = Inr ()
     \<and> execs (snd (ensure_ssl_certificate_exists ex_collab ''example.com''
          ''/home/user-data/ssl/ssl_private_key.pem''
          ''/home/user-data/ssl/example.com/ssl_certificate.pem''
          ''/home/user-data/ssl/example.com/certificate_signing_request.csr''
          ex_env ex_world))
       = [[''openssl'', ''req'', ''-new'', ''-key'', ''/home/user-data/ssl/ssl_private_key.pem'',
           ''-out'', ''/home/user-data/ssl/example.com/certificate_signing_request.csr'',
           ''-subj'', ''/C=US/ST=/L=/O=/CN=example.com''],
          [''openssl'', ''x509'', ''-req'', ''-days'', ''365'', ''-in'',
           ''/home/user-data/ssl/example.com/certificate_signing_request.csr'',
           ''-signkey'', ''/home/user-data/ssl/ssl_private_key.pem'', ''-out'',
           ''/home/user-data/ssl/example.com/ssl_certificate.pem'']]"
    by (simp add: Let_def ok e0 cc mk)
  from ensure_ssl_certificate_exists_invocations
         [of "''example.com''" ex_env "''/home/user-data/ssl/example.com/ssl_certificate.pem''"
             blocked_world ex_collab "''/home/user-data/ssl/ssl_private_key.pem''"
             "''/home/user-data/ssl/example.com/certificate_signing_request.csr''"] bl nr
  have f: "fst (makedirs ex_collab (dirname ''/home/user-data/ssl/example.com/ssl_certificate.pem'') blocked_world) \<noteq> Inr ()"
    by blast
  from a e0 have a': "fst (ensure_ssl_certificate_exists ex_collab ''box.example.com''
          ''/home/user-data/ssl/ssl_private_key.pem'' ''/home/user-data/ssl/ssl_certificate.pem''
          ''/home/user-data/ssl/ssl_cert_sign_req.csr'' ex_env ex_world) = Inr ()
   \<and> execs (snd (ensure_ssl_certificate_exists ex_collab ''box.example.com''
          ''/home/user-data/ssl/ssl_private_key.pem'' ''/home/user-data/ssl/ssl_certificate.pem''
          ''/home/user-data/ssl/ssl_cert_sign_req.csr'' ex_env ex_world)) = []"
    by simp
  from a' b n mk bl f pin show ?thesis by blast
qed

section \<open>Strings: proofs\<close>

lemma concat_re_split_from: "concat (re_split_from sep cur s) = cur @ s"
proof (induction sep cur s rule: re_split_from.induct)
  case (1 sep cur)
  then show ?case by simp
next
  case (2 sep cur c cs)
  show ?case
  proof (cases "sep \<noteq> [] \<and> take (length sep) (c # cs) = sep")
    case True
    then have "sep @ drop (length sep) (c # cs) = c # cs"
      by (metis append_take_drop_id)
    with True 2 show ?thesis by simp
  next
    case False
    with 2 show ?thesis by auto
  qed
qed

lemma concat_re_split: "concat (re_split sep s) = s"
  by (simp add: re_split_def concat_re_split_from)


lemma re_split_from_first:
  "sep \<noteq> [] \<Longrightarrow> s = p @ sep @ q \<Longrightarrow>
   \<exists>pre post. s = pre @ sep @ post \<and> length pre \<le> length p
      \<and> re_split_from sep cur s = (cur @ pre) # sep # re_split_from sep [] post"
proof (induction sep cur s arbitrary: p rule: re_split_from.induct)
  case (1 sep cur)
  then show ?case by simp
next
  case (2 sep cur c cs)
  show ?case
  proof (cases "take (length sep) (c # cs) = sep")
    case True
    then have "c # cs = [] @ sep @ drop (length sep) (c # cs)"
      by (metis append_Nil append_take_drop_id)
    moreover have "re_split_from sep cur (c # cs)
        = (cur @ []) # sep # re_split_from sep [] (drop (length sep) (c # cs))"
      using True 2(3) by simp
    ultimately show ?thesis
      by (metis list.size(3) le0)
  next
    case False
    have "p \<noteq> []"
    proof
      assume "p = []"
      with 2(4) have "take (length sep) (c # cs) = sep" by simp
      with False show False by simp
    qed
    then obtain p' where p: "p = c # p'" and cs: "cs = p' @ sep @ q"
      using 2(4) by (cases p) auto
    from 2(2)[OF _ 2(3) cs] False
    obtain pre post where a: "cs = pre @ sep @ post" and b: "length pre \<le> length p'"
      and d: "re_split_from sep (cur @ [c]) cs = ((cur @ [c]) @ pre) # sep # re_split_from sep [] post"
      by blast
    have "c # cs = (c # pre) @ sep @ post" using a by simp
    moreover have "length (c # pre) \<le> length p" using b p by simp
    moreover have "re_split_from sep cur (c # cs) = (cur @ (c # pre)) # sep # re_split_from sep [] post"
      using False d by simp
    ultimately show ?thesis by blast
  qed
qed

lemma replace_absent:
  "old \<noteq> [] \<Longrightarrow> hd old \<notin> set s \<Longrightarrow> replace old new s = s"
proof (induction old new s rule: replace.induct)
  case (1 old new)
  then show ?case by simp
next
  case (2 old new c cs)
  have "take (length old) (c # cs) \<noteq> old"
  proof
    assume "take (length old) (c # cs) = old"
    then have "hd old = c" using 2(4) by (cases old) auto
    with 2(5) show False by simp
  qed
  with 2 show ?case by simp
qed

lemma replace_skip:
  "old \<noteq> [] \<Longrightarrow> hd old \<notin> set xs \<Longrightarrow> replace old new (xs @ ys) = xs @ replace old new ys"
proof (induction xs)
  case Nil
  then show ?case by simp
next
  case (Cons x xs)
  have "take (length old) (x # xs @ ys) \<noteq> old"
  proof
    assume "take (length old) (x # xs @ ys) = old"
    then have "hd old = x" using Cons(2) by (cases old) auto
    with Cons(3) show False by simp
  qed
  with Cons show ?case by simp
qed

lemma replace_hit:
  "old \<noteq> [] \<Longrightarrow> replace old new (old @ ys) = new @ replace old new ys"
  by (cases old) simp_all

lemma hd_in_take: "ys \<noteq> [] \<Longrightarrow> 0 < k \<Longrightarrow> hd ys \<in> set (take k ys)"
  by (cases ys; cases k) simp_all

lemma take_append_le: "n \<le> length xs \<Longrightarrow> take n (xs @ ys) = take n xs"
  by simp

lemma take_append_gt: "\<not> n \<le> length xs \<Longrightarrow> take n (xs @ ys) = xs @ take (n - length xs) ys"
  by simp

lemma drop_append_le: "n \<le> length xs \<Longrightarrow> drop n (xs @ ys) = drop n xs @ ys"
  by simp

lemma replace_keeps_tail:
  "old \<noteq> [] \<Longrightarrow> ys \<noteq> [] \<Longrightarrow> hd ys \<notin> set old \<Longrightarrow> hd old \<notin> set ys \<Longrightarrow>
   replace old new (xs @ ys) = replace old new xs @ ys"
proof (induction old new xs rule: replace.induct)
  case (1 old new)
  then show ?case by (simp add: replace_absent)
next
  case (2 old new c cs)
  note prems = "2.prems"
  show ?case
  proof (cases "take (length old) (c # cs) = old")
    case True
    have "length (take (length old) (c # cs)) \<le> length (c # cs)"
      by simp
    then have len: "length old \<le> length (c # cs)"
      using True by simp
    have t: "take (length old) ((c # cs) @ ys) = old"
      using True take_append_le[OF len, of ys] by simp
    have d: "drop (length old) ((c # cs) @ ys) = drop (length old) (c # cs) @ ys"
      using len by (rule drop_append_le)
    have "replace old new ((c # cs) @ ys) = new @ replace old new (drop (length old) ((c # cs) @ ys))"
      using t prems(1) by simp
    also have "\<dots> = new @ replace old new (drop (length old) (c # cs)) @ ys"
      using "2.IH"(2)[OF prems(1) True prems] d by simp
    also have "\<dots> = replace old new (c # cs) @ ys"
      using True prems(1) by simp
    finally show ?thesis .
  next
    case False
    have "take (length old) ((c # cs) @ ys) \<noteq> old"
    proof
      assume eq: "take (length old) ((c # cs) @ ys) = old"
      show False
      proof (cases "length old \<le> length (c # cs)")
        case True
        then have "take (length old) ((c # cs) @ ys) = take (length old) (c # cs)"
          by (rule take_append_le)
        with eq False show False by simp
      next
        case nle: False
        define t where "t = take (length old - length (c # cs)) ys"
        have "take (length old) ((c # cs) @ ys) = (c # cs) @ t"
          unfolding t_def using nle by (rule take_append_gt)
        with eq have o: "old = (c # cs) @ t" by simp
        have "hd ys \<in> set t"
          unfolding t_def using nle prems(2) by (intro hd_in_take) simp_all
        then have "hd ys \<in> set old"
          by (subst o) simp
        with prems(3) show False by simp
      qed
    qed
    then have "replace old new ((c # cs) @ ys) = c # replace old new (cs @ ys)"
      using prems(1) by simp
    also have "\<dots> = c # replace old new cs @ ys"
      using "2.IH"(3)[OF prems(1) False prems] by simp
    also have "\<dots> = replace old new (c # cs) @ ys"
      using False prems(1) by simp
    finally show ?thesis .
  qed
qed

lemma contains_str_iff: "contains_str k s \<longleftrightarrow> (\<exists>p q. s = p @ k @ q)"
proof (induction s)
  case Nil
  then show ?case by simp
next
  case (Cons ch cs)
  show ?case
  proof
    assume "contains_str k (ch # cs)"
    then consider "take (length k) (ch # cs) = k" | "contains_str k cs" by auto
    then show "\<exists>p q. ch # cs = p @ k @ q"
    proof cases
      case 1
      then have "ch # cs = [] @ k @ drop (length k) (ch # cs)"
        by (metis append_Nil append_take_drop_id)
      then show ?thesis by blast
    next
      case 2
      with Cons.IH obtain p q where "cs = p @ k @ q" by blast
      then have "ch # cs = (ch # p) @ k @ q" by simp
      then show ?thesis by blast
    qed
  next
    assume "\<exists>p q. ch # cs = p @ k @ q"
    then obtain p q where e: "ch # cs = p @ k @ q" by blast
    show "contains_str k (ch # cs)"
    proof (cases p)
      case Nil
      with e have "take (length k) (ch # cs) = k" by simp
      then show ?thesis by simp
    next
      case (Cons a p')
      with e have "cs = p' @ k @ q" by simp
      with Cons.IH have "contains_str k cs" by blast
      then show ?thesis by simp
    qed
  qed
qed

lemma replace_no_occurrence:
  "old \<noteq> [] \<Longrightarrow> \<not> (\<exists>p q. xs = p @ old @ q) \<Longrightarrow> ys \<noteq> [] \<Longrightarrow> hd ys \<notin> set old \<Longrightarrow>
   replace old new (xs @ ys) = xs @ replace old new ys"
proof (induction xs)
  case Nil
  then show ?case by simp
next
  case (Cons x xs)
  have nomatch: "take (length old) ((x # xs) @ ys) \<noteq> old"
  proof
    assume eq: "take (length old) ((x # xs) @ ys) = old"
    show False
    proof (cases "length old \<le> length (x # xs)")
      case True
      then have "take (length old) ((x # xs) @ ys) = take (length old) (x # xs)"
        by (rule take_append_le)
      with eq have "x # xs = [] @ old @ drop (length old) (x # xs)"
        by (metis append_Nil append_take_drop_id)
      with Cons.prems(2) show False by blast
    next
      case nle: False
      define t where "t = take (length old - length (x # xs)) ys"
      have "take (length old) ((x # xs) @ ys) = (x # xs) @ t"
        unfolding t_def using nle by (rule take_append_gt)
      with eq have o: "old = (x # xs) @ t" by simp
      have "hd ys \<in> set t"
        unfolding t_def using nle Cons.prems(3) by (intro hd_in_take) simp_all
      then have "hd ys \<in> set old"
        by (subst o) simp
      with Cons.prems(4) show False by simp
    qed
  qed
  have "\<not> (\<exists>p q. xs = p @ old @ q)"
  proof
    assume "\<exists>p q. xs = p @ old @ q"
    then obtain p q where "xs = p @ old @ q" by blast
    then have "x # xs = (x # p) @ old @ q" by simp
    with Cons.prems(2) show False by blast
  qed
  with Cons have ih: "replace old new (xs @ ys) = xs @ replace old new ys"
    by blast
  have "replace old new ((x # xs) @ ys) = x # replace old new (xs @ ys)"
    using nomatch Cons.prems(1) by simp
  with ih show ?case by simp
qed

section \<open>Rendering a domain: proofs\<close>

lemma read_file_exists: "read_file c w p = Inr t \<Longrightarrow> path_exists w p"
  by (auto simp: read_file_def path_exists_def split: option.splits node.splits)

lemma make_domain_config_provisioned:
  assumes "get_domain_ssl_files c domain env w = (ssl_key, ssl_certificate, csr_path)"
    and "ensure_ssl_certificate_exists c domain ssl_key ssl_certificate csr_path env w = (Inr (), w1)"
  shows "make_domain_config c domain template env w =
     (case add_customizations c domain env w1
             (re_split marker
                (substitute template domain (get_web_root c domain env w) ssl_key ssl_certificate)) of
        Inl e \<Rightarrow> (Inl e, w1)
      | Inr parts \<Rightarrow> (Inr (concat parts), w1))"
  using assms by (simp add: make_domain_config_def)

lemma add_customizations_proxy:
  assumes "read_file c w (path_join (STORAGE_ROOT env) [''www/custom.yaml'']) = Inr text"
    and "rtyaml_load c text = Some yaml" and "py_in domain yaml = Inr True"
    and "py_getitem yaml domain = Inr entry" and "py_in ''proxy'' entry = Inr True"
  shows "add_customizations c domain env w parts =
     (if length parts < 2 then Inl IndexError
      else case py_getitem entry ''proxy'' of
             Inl e \<Rightarrow> Inl e
           | Inr target \<Rightarrow> Inr (parts[1 := parts ! 1 @ proxy_block (py_format c target)]))"
  using assms read_file_exists[OF assms(1)] by (simp add: add_customizations_def)

lemma add_customizations_none:
  assumes "\<not> path_exists w (path_join (STORAGE_ROOT env) [''www/custom.yaml''])
     \<or> (read_file c w (path_join (STORAGE_ROOT env) [''www/custom.yaml'']) = Inr text
        \<and> rtyaml_load c text = Some yaml
        \<and> (py_in domain yaml = Inr False
           \<or> (py_in domain yaml = Inr True \<and> py_getitem yaml domain = Inr entry
              \<and> py_in ''proxy'' entry = Inr False)))"
  shows "add_customizations c domain env w parts = Inr parts"
  using assms by (auto simp: add_customizations_def read_file_exists)

lemma marker_nonempty: "marker \<noteq> []"
  by (simp add: marker_def)


lemma re_split_first_marker:
  assumes "s = p @ marker @ q"
  shows "\<exists>pre post rest. s = pre @ marker @ post \<and> length pre \<le> length p
      \<and> re_split marker s = pre # marker # rest \<and> concat rest = post"
proof -
  from re_split_from_first[OF marker_nonempty assms, of "[]"]
  obtain pre post where a: "s = pre @ marker @ post" and b: "length pre \<le> length p"
    and d: "re_split_from marker [] s = pre # marker # re_split_from marker [] post"
    by auto
  have "concat (re_split_from marker [] post) = post"
    by (simp add: concat_re_split_from)
  with a b d show ?thesis
    unfolding re_split_def by blast
qed

lemma substitute_keeps_tail:
  assumes "ys \<noteq> []" and "hd ys \<notin> set ''$HOSTNAME'' \<union> set ''$ROOT'' \<union> set ''$SSL_KEY'' \<union> set ''$SSL_CERTIFICATE''"
    and "CHR ''$'' \<notin> set ys"
  shows "substitute (xs @ ys) domain root ssl_key ssl_certificate
       = substitute xs domain root ssl_key ssl_certificate @ ys"
proof -
  have k: "\<And>old new zs. old \<in> {''$HOSTNAME'', ''$ROOT'', ''$SSL_KEY'', ''$SSL_CERTIFICATE''} \<Longrightarrow>
          replace old new (zs @ ys) = replace old new zs @ ys"
  proof -
    fix old new zs
    assume o: "old \<in> {''$HOSTNAME'', ''$ROOT'', ''$SSL_KEY'', ''$SSL_CERTIFICATE''}"
    then have "old \<noteq> []" and "hd ys \<notin> set old" and "hd old \<notin> set ys"
      using assms(2,3) by auto
    with assms(1) show "replace old new (zs @ ys) = replace old new zs @ ys"
      by (intro replace_keeps_tail)
  qed
  show ?thesis
    unfolding substitute_def Let_def
    by (simp only: k insertI1 insertI2)
qed

lemma example_template_split:
  "example_template = ''$HOSTNAME|$ROOT|$SSL_KEY|$SSL_CERTIFICATE\<newline>'' @ (marker @ ''tail'')"
  by (simp add: example_template_def marker_def)

lemma substitute_example_tail:
  "substitute example_template domain root ssl_key ssl_certificate
     = substitute ''$HOSTNAME|$ROOT|$SSL_KEY|$SSL_CERTIFICATE\<newline>'' domain root ssl_key ssl_certificate
       @ marker @ ''tail''"
  unfolding example_template_split
  by (rule substitute_keeps_tail) (simp_all add: marker_def)

lemma suffix_tail:
  assumes "pre @ m @ post = X @ m @ t" and "length pre \<le> length X"
  shows "\<exists>post'. post = post' @ t"
proof -
  from assms obtain us where us: "X = pre @ us"
    by (metis append_eq_append_conv_if append_take_drop_id)
  with assms(1) have "m @ post = us @ m @ t" by simp
  then have "post = drop (length m) (us @ m @ t)"
    by (metis append_eq_conv_conj)
  also have "\<dots> = drop (length m) (us @ m) @ t"
    by simp
  finally show ?thesis by blast
qed


lemma pair_from_fst: "fst p = a \<Longrightarrow> p = (a, snd p)"
  by (cases p) simp

lemma substitute_example:
  assumes "\<not> (\<exists>p q. root = p @ ''$SSL_KEY'' @ q)"
    and "\<not> (\<exists>p q. root = p @ ''$SSL_CERTIFICATE'' @ q)"
    and "\<not> (\<exists>p q. ssl_key = p @ ''$SSL_CERTIFICATE'' @ q)"
  shows "substitute example_template ''example.com'' root ssl_key ssl_certificate
     = ''example.com|'' @ root @ ''|'' @ ssl_key @ ''|'' @ ssl_certificate
       @ ''\<newline># ADDITIONAL DIRECTIVES HERE\<newline>tail''"
proof -
  have s1: "replace ''$HOSTNAME'' ''example.com'' example_template
      = ''example.com|$ROOT|$SSL_KEY|$SSL_CERTIFICATE\<newline># ADDITIONAL DIRECTIVES HERE\<newline>tail''"
    by (simp add: example_template_def)
  have s2: "replace ''$ROOT'' root
        ''example.com|$ROOT|$SSL_KEY|$SSL_CERTIFICATE\<newline># ADDITIONAL DIRECTIVES HERE\<newline>tail''
      = ''example.com|'' @ root @ ''|$SSL_KEY|$SSL_CERTIFICATE\<newline># ADDITIONAL DIRECTIVES HERE\<newline>tail''"
    by simp
  have k: "replace ''$SSL_KEY'' ssl_key
        (root @ ''|$SSL_KEY|$SSL_CERTIFICATE\<newline># ADDITIONAL DIRECTIVES HERE\<newline>tail'')
      = root @ replace ''$SSL_KEY'' ssl_key
          ''|$SSL_KEY|$SSL_CERTIFICATE\<newline># ADDITIONAL DIRECTIVES HERE\<newline>tail''"
    using assms(1) by (intro replace_no_occurrence) simp_all
  have s3: "replace ''$SSL_KEY'' ssl_key
        (''example.com|'' @ root @ ''|$SSL_KEY|$SSL_CERTIFICATE\<newline># ADDITIONAL DIRECTIVES HERE\<newline>tail'')
      = ''example.com|'' @ root @ ''|'' @ ssl_key @ ''|$SSL_CERTIFICATE\<newline># ADDITIONAL DIRECTIVES HERE\<newline>tail''"
    using k by simp
  have c1: "replace ''$SSL_CERTIFICATE'' ssl_certificate
        (root @ ''|'' @ ssl_key @ ''|$SSL_CERTIFICATE\<newline># ADDITIONAL DIRECTIVES HERE\<newline>tail'')
      = root @ replace ''$SSL_CERTIFICATE'' ssl_certificate
          (''|'' @ ssl_key @ ''|$SSL_CERTIFICATE\<newline># ADDITIONAL DIRECTIVES HERE\<newline>tail'')"
    using assms(2) by (intro replace_no_occurrence) simp_all
  have c2: "replace ''$SSL_CERTIFICATE'' ssl_certificate
        (ssl_key @ ''|$SSL_CERTIFICATE\<newline># ADDITIONAL DIRECTIVES HERE\<newline>tail'')
      = ssl_key @ replace ''$SSL_CERTIFICATE'' ssl_certificate
          ''|$SSL_CERTIFICATE\<newline># ADDITIONAL DIRECTIVES HERE\<newline>tail''"
    using assms(3) by (intro replace_no_occurrence) simp_all
  have s4: "replace ''$SSL_CERTIFICATE'' ssl_certificate
        (''example.com|'' @ root @ ''|'' @ ssl_key @ ''|$SSL_CERTIFICATE\<newline># ADDITIONAL DIRECTIVES HERE\<newline>tail'')
      = ''example.com|'' @ root @ ''|'' @ ssl_key @ ''|'' @ ssl_certificate
       @ ''\<newline># ADDITIONAL DIRECTIVES HERE\<newline>tail''"
    using c1 c2 by simp
  show ?thesis
    unfolding substitute_def Let_def
    by (simp only: s1 s2 s3 s4)
qed

lemma substitute_chain:
  "substitute template domain root ssl_key ssl_certificate
     = replace ''$SSL_CERTIFICATE'' ssl_certificate
         (replace ''$SSL_KEY'' ssl_key
           (replace ''$ROOT'' root (replace ''$HOSTNAME'' domain template)))"
  by (simp add: substitute_def)

lemma marker_text: "marker = ''# ADDITIONAL DIRECTIVES HERE\<newline>''"
  by (simp add: marker_def)

text \<open>
  Claim C4, as stated: for the example template and the domain \<^verbatim>\<open>example.com\<close> without an
  overlay entry, \<open>make_domain_config\<close> returns the template with each placeholder replaced
  by the resolved value. It does not in three cases. The replacements run one after the
  other over the whole text, so the \<^verbatim>\<open>$SSL_KEY\<close> inside a document root is replaced as
  well, and so is the \<^verbatim>\<open>$SSL_CERTIFICATE\<close> inside a root or a key path. When the certificate tool fails, the error is raised and nothing is returned. When
  the overlay file is empty, the parser gives the null document, which has no entry for the
  domain, and the membership test of line 95 raises a type error.
\<close>

theorem render_differs:
  "get_web_root ex_collab ''example.com'' dollar_env ex_world = ''/srv/$SSL_KEY/www/default''
   \<and> get_domain_ssl_files ex_collab ''example.com'' dollar_env ex_world
       = (''/srv/$SSL_KEY/ssl/ssl_private_key.pem'', ''/srv/$SSL_KEY/ssl/ssl_certificate.pem'',
          ''/srv/$SSL_KEY/ssl/ssl_cert_sign_req.csr'')
   \<and> \<not> path_exists ex_world (path_join (STORAGE_ROOT dollar_env) [''www/custom.yaml''])
   \<and> fst (make_domain_config ex_collab ''example.com'' example_template dollar_env ex_world)
       = Inr ''example.com|/srv//srv/$SSL_KEY/ssl/ssl_private_key.pem/www/default|/srv/$SSL_KEY/ssl/ssl_private_key.pem|/srv/$SSL_KEY/ssl/ssl_certificate.pem\<newline># ADDITIONAL DIRECTIVES HERE\<newline>tail''
   \<and> fst (make_domain_config ex_collab ''example.com'' example_template dollar_env ex_world)
       \<noteq> Inr ''example.com|/srv/$SSL_KEY/www/default|/srv/$SSL_KEY/ssl/ssl_private_key.pem|/srv/$SSL_KEY/ssl/ssl_certificate.pem\<newline># ADDITIONAL DIRECTIVES HERE\<newline>tail''
   \<and> get_web_root ex_collab ''example.com'' dollar_cert_env ex_world
       = ''/srv/$SSL_CERTIFICATE/www/default''
   \<and> get_domain_ssl_files ex_collab ''example.com'' dollar_cert_env ex_world
       = (''/srv/$SSL_CERTIFICATE/ssl/ssl_private_key.pem'',
          ''/srv/$SSL_CERTIFICATE/ssl/ssl_certificate.pem'',
          ''/srv/$SSL_CERTIFICATE/ssl/ssl_cert_sign_req.csr'')
   \<and> fst (make_domain_config ex_collab ''example.com'' example_template dollar_cert_env
             ex_world)
       \<noteq> Inr ''example.com|/srv/$SSL_CERTIFICATE/www/default|/srv/$SSL_CERTIFICATE/ssl/ssl_private_key.pem|/srv/$SSL_CERTIFICATE/ssl/ssl_certificate.pem\<newline># ADDITIONAL DIRECTIVES HERE\<newline>tail''
   \<and> \<not> path_exists ex_world (path_join (STORAGE_ROOT ex_env) [''www/custom.yaml''])
   \<and> fst (make_domain_config failing_collab ''example.com'' example_template ex_env ex_world)
       = Inl (CalledProcessError
          [''openssl'', ''req'', ''-new'', ''-key'', ''/home/user-data/ssl/ssl_private_key.pem'',
           ''-out'', ''/home/user-data/ssl/example.com/certificate_signing_request.csr'',
           ''-subj'', ''/C=US/ST=/L=/O=/CN=example.com''])
   \<and> read_file ex_collab null_overlay_world (path_join (STORAGE_ROOT ex_env) [''www/custom.yaml'']) = Inr []
   \<and> rtyaml_load ex_collab [] = Some (Scalar ''None'')
   \<and> fst (make_domain_config ex_collab ''example.com'' example_template ex_env
             null_overlay_world) = Inl TypeError"
  by code_simp

text \<open>
  Claim C4, amended. For the example template and the domain \<^verbatim>\<open>example.com\<close>, when the
  certificate step has completed without error, there is no overlay file or the overlay
  document answers the membership test for the domain with no, the resolved document root
  contains neither \<^verbatim>\<open>$SSL_KEY\<close> nor \<^verbatim>\<open>$SSL_CERTIFICATE\<close> and the resolved key path does
  not contain \<^verbatim>\<open>$SSL_CERTIFICATE\<close>, \<open>make_domain_config\<close> returns exactly the template with
  the four placeholders replaced by the domain, the root, the key path and the certificate
  path; nothing is inserted and the tail is unchanged.
\<close>

theorem render_without_overlay:
  assumes "get_domain_ssl_files c ''example.com'' env w = (ssl_key, ssl_certificate, csr_path)"
    and "ensure_ssl_certificate_exists c ''example.com'' ssl_key ssl_certificate csr_path env w
           = (Inr (), w1)"
    and "\<not> path_exists w1 (path_join (STORAGE_ROOT env) [''www/custom.yaml''])
         \<or> (read_file c w1 (path_join (STORAGE_ROOT env) [''www/custom.yaml'']) = Inr text
            \<and> rtyaml_load c text = Some yaml \<and> py_in ''example.com'' yaml = Inr False)"
    and "\<not> (\<exists>p q. get_web_root c ''example.com'' env w = p @ ''$SSL_KEY'' @ q)"
    and "\<not> (\<exists>p q. get_web_root c ''example.com'' env w = p @ ''$SSL_CERTIFICATE'' @ q)"
    and "\<not> (\<exists>p q. ssl_key = p @ ''$SSL_CERTIFICATE'' @ q)"
  shows "make_domain_config c ''example.com'' example_template env w =
     (Inr (''example.com|'' @ get_web_root c ''example.com'' env w @ ''|'' @ ssl_key @ ''|''
           @ ssl_certificate @ ''\<newline># ADDITIONAL DIRECTIVES HERE\<newline>tail''), w1)"
proof -
  from assms(3)
  have "\<not> path_exists w1 (path_join (STORAGE_ROOT env) [''www/custom.yaml''])
     \<or> (read_file c w1 (path_join (STORAGE_ROOT env) [''www/custom.yaml'']) = Inr text
        \<and> rtyaml_load c text = Some yaml
        \<and> (py_in ''example.com'' yaml = Inr False
           \<or> (py_in ''example.com'' yaml = Inr True
              \<and> py_getitem yaml ''example.com'' = Inr yaml
              \<and> py_in ''proxy'' yaml = Inr False)))"
    by blast
  then have "add_customizations c ''example.com'' env w1
               (re_split marker
                  (substitute example_template ''example.com''
                     (get_web_root c ''example.com'' env w) ssl_key ssl_certificate))
             = Inr (re_split marker
                  (substitute example_template ''example.com''
                     (get_web_root c ''example.com'' env w) ssl_key ssl_certificate))"
    by (rule add_customizations_none)
  then show ?thesis
    by (simp only: make_domain_config_provisioned[OF assms(1,2)] concat_re_split
          substitute_example[OF assms(4,5,6)] sum.case)
qed

theorem render_without_overlay_witness:
  "get_domain_ssl_files ex_collab ''example.com'' ex_env ex_world = (''/home/user-data/ssl/ssl_private_key.pem'',
        ''/home/user-data/ssl/example.com/ssl_certificate.pem'',
        ''/home/user-data/ssl/example.com/certificate_signing_request.csr'')
   \<and> fst (ensure_ssl_certificate_exists ex_collab ''example.com''
          ''/home/user-data/ssl/ssl_private_key.pem''
          ''/home/user-data/ssl/example.com/ssl_certificate.pem''
          ''/home/user-data/ssl/example.com/certificate_signing_request.csr''
          ex_env ex_world) = Inr ()
   \<and> \<not> path_exists (snd (ensure_ssl_certificate_exists ex_collab ''example.com''
          ''/home/user-data/ssl/ssl_private_key.pem''
          ''/home/user-data/ssl/example.com/ssl_certificate.pem''
          ''/home/user-data/ssl/example.com/certificate_signing_request.csr''
          ex_env ex_world)) (path_join (STORAGE_ROOT ex_env) [''www/custom.yaml''])
   \<and> fst (make_domain_config ex_collab ''example.com'' example_template ex_env ex_world)
       = Inr ''example.com|/home/user-data/www/default|/home/user-data/ssl/ssl_private_key.pem|/home/user-data/ssl/example.com/ssl_certificate.pem\<newline># ADDITIONAL DIRECTIVES HERE\<newline>tail''
   \<and> get_web_root ex_collab ''example.com'' data_env ex_world = ''/srv/$data/www/default''
   \<and> get_domain_ssl_files ex_collab ''example.com'' data_env ex_world
       = (''/srv/$data/ssl/ssl_private_key.pem'', ''/srv/$data/ssl/ssl_certificate.pem'',
          ''/srv/$data/ssl/ssl_cert_sign_req.csr'')
   \<and> fst (make_domain_config ex_collab ''example.com'' example_template data_env ex_world)
       = Inr ''example.com|/srv/$data/www/default|/srv/$data/ssl/ssl_private_key.pem|/srv/$data/ssl/ssl_certificate.pem\<newline># ADDITIONAL DIRECTIVES HERE\<newline>tail''"
proof -
  let ?w1 = "snd (ensure_ssl_certificate_exists ex_collab ''example.com''
          ''/home/user-data/ssl/ssl_private_key.pem''
          ''/home/user-data/ssl/example.com/ssl_certificate.pem''
          ''/home/user-data/ssl/example.com/certificate_signing_request.csr''
          ex_env ex_world)"
  let ?w2 = "snd (ensure_ssl_certificate_exists ex_collab ''example.com''
          ''/srv/$data/ssl/ssl_private_key.pem''
          ''/srv/$data/ssl/ssl_certificate.pem''
          ''/srv/$data/ssl/ssl_cert_sign_req.csr''
          data_env ex_world)"
  have h1: "get_domain_ssl_files ex_collab ''example.com'' ex_env ex_world = (''/home/user-data/ssl/ssl_private_key.pem'',
        ''/home/user-data/ssl/example.com/ssl_certificate.pem'',
        ''/home/user-data/ssl/example.com/certificate_signing_request.csr'')"
    by code_simp
  have f: "fst (ensure_ssl_certificate_exists ex_collab ''example.com''
          ''/home/user-data/ssl/ssl_private_key.pem''
          ''/home/user-data/ssl/example.com/ssl_certificate.pem''
          ''/home/user-data/ssl/example.com/certificate_signing_request.csr''
          ex_env ex_world) = Inr ()"
    by code_simp
  have h2: "ensure_ssl_certificate_exists ex_collab ''example.com''
          ''/home/user-data/ssl/ssl_private_key.pem''
          ''/home/user-data/ssl/example.com/ssl_certificate.pem''
          ''/home/user-data/ssl/example.com/certificate_signing_request.csr''
          ex_env ex_world = (Inr (), ?w1)"
    using f by (rule pair_from_fst)
  have n: "\<not> path_exists ?w1 (path_join (STORAGE_ROOT ex_env) [''www/custom.yaml''])"
    by code_simp
  then have h3: "\<not> path_exists ?w1 (path_join (STORAGE_ROOT ex_env) [''www/custom.yaml''])
       \<or> (read_file ex_collab ?w1 (path_join (STORAGE_ROOT ex_env) [''www/custom.yaml'']) = Inr []
          \<and> rtyaml_load ex_collab [] = Some (YMap [])
          \<and> py_in ''example.com'' (YMap []) = Inr False)"
    by (rule disjI1)
  have r: "get_web_root ex_collab ''example.com'' ex_env ex_world = ''/home/user-data/www/default''"
    by code_simp
  have "\<not> contains_str ''$SSL_KEY'' (get_web_root ex_collab ''example.com'' ex_env ex_world)"
    by code_simp
  then have h4: "\<not> (\<exists>p q. get_web_root ex_collab ''example.com'' ex_env ex_world
                          = p @ ''$SSL_KEY'' @ q)"
    unfolding contains_str_iff .
  have "\<not> contains_str ''$SSL_CERTIFICATE'' (get_web_root ex_collab ''example.com'' ex_env ex_world)"
    by code_simp
  then have h5: "\<not> (\<exists>p q. get_web_root ex_collab ''example.com'' ex_env ex_world
                          = p @ ''$SSL_CERTIFICATE'' @ q)"
    unfolding contains_str_iff .
  have "\<not> contains_str ''$SSL_CERTIFICATE'' ''/home/user-data/ssl/ssl_private_key.pem''"
    by code_simp
  then have h6: "\<not> (\<exists>p q. ''/home/user-data/ssl/ssl_private_key.pem'' = p @ ''$SSL_CERTIFICATE'' @ q)"
    unfolding contains_str_iff .
  from render_without_overlay[OF h1 h2 h3 h4 h5 h6]
  have a: "fst (make_domain_config ex_collab ''example.com'' example_template ex_env ex_world)
       = Inr ''example.com|/home/user-data/www/default|/home/user-data/ssl/ssl_private_key.pem|/home/user-data/ssl/example.com/ssl_certificate.pem\<newline># ADDITIONAL DIRECTIVES HERE\<newline>tail''"
    by (simp add: r)
  have g1: "get_domain_ssl_files ex_collab ''example.com'' data_env ex_world
       = (''/srv/$data/ssl/ssl_private_key.pem'', ''/srv/$data/ssl/ssl_certificate.pem'',
          ''/srv/$data/ssl/ssl_cert_sign_req.csr'')"
    by code_simp
  have f2: "fst (ensure_ssl_certificate_exists ex_collab ''example.com''
          ''/srv/$data/ssl/ssl_private_key.pem''
          ''/srv/$data/ssl/ssl_certificate.pem''
          ''/srv/$data/ssl/ssl_cert_sign_req.csr''
          data_env ex_world) = Inr ()"
    by code_simp
  have g2: "ensure_ssl_certificate_exists ex_collab ''example.com''
          ''/srv/$data/ssl/ssl_private_key.pem''
          ''/srv/$data/ssl/ssl_certificate.pem''
          ''/srv/$data/ssl/ssl_cert_sign_req.csr''
          data_env ex_world = (Inr (), ?w2)"
    using f2 by (rule pair_from_fst)
  have n2: "\<not> path_exists ?w2 (path_join (STORAGE_ROOT data_env) [''www/custom.yaml''])"
    by code_simp
  then have g3: "\<not> path_exists ?w2 (path_join (STORAGE_ROOT data_env) [''www/custom.yaml''])
       \<or> (read_file ex_collab ?w2 (path_join (STORAGE_ROOT data_env) [''www/custom.yaml''])
              = Inr []
          \<and> rtyaml_load ex_collab [] = Some (YMap [])
          \<and> py_in ''example.com'' (YMap []) = Inr False)"
    by (rule disjI1)
  have r2: "get_web_root ex_collab ''example.com'' data_env ex_world = ''/srv/$data/www/default''"
    by code_simp
  have "\<not> contains_str ''$SSL_KEY'' (get_web_root ex_collab ''example.com'' data_env ex_world)"
    by code_simp
  then have g4: "\<not> (\<exists>p q. get_web_root ex_collab ''example.com'' data_env ex_world
                          = p @ ''$SSL_KEY'' @ q)"
    unfolding contains_str_iff .
  have "\<not> contains_str ''$SSL_CERTIFICATE''
            (get_web_root ex_collab ''example.com'' data_env ex_world)"
    by code_simp
  then have g5: "\<not> (\<exists>p q. get_web_root ex_collab ''example.com'' data_env ex_world
                          = p @ ''$SSL_CERTIFICATE'' @ q)"
    unfolding contains_str_iff .
  have "\<not> contains_str ''$SSL_CERTIFICATE'' ''/srv/$data/ssl/ssl_private_key.pem''"
    by code_simp
  then have g6: "\<not> (\<exists>p q. ''/srv/$data/ssl/ssl_private_key.pem'' = p @ ''$SSL_CERTIFICATE'' @ q)"
    unfolding contains_str_iff .
  from render_without_overlay[OF g1 g2 g3 g4 g5 g6]
  have b: "fst (make_domain_config ex_collab ''example.com'' example_template data_env ex_world)
       = Inr ''example.com|/srv/$data/www/default|/srv/$data/ssl/ssl_private_key.pem|/srv/$data/ssl/ssl_certificate.pem\<newline># ADDITIONAL DIRECTIVES HERE\<newline>tail''"
    by (simp add: r2)
  from h1 f n a r2 g1 b show ?thesis by blast
qed

text \<open>
  Claim C5, as stated: with an overlay that maps \<^verbatim>\<open>example.com\<close> to the proxy target
  \<^verbatim>\<open>http://localhost:8080\<close>, \<open>make_domain_config\<close> inserts the proxy block. It does not
  when the certificate tool fails: the error is raised before the template is looked at and
  nothing is returned.
\<close>

theorem no_block_when_certificate_fails:
  "read_file failing_collab overlay_world (path_join (STORAGE_ROOT ex_env) [''www/custom.yaml'']) = Inr ''proxy''
   \<and> rtyaml_load failing_collab ''proxy''
       = Some (YMap [(''example.com'', YMap [(''proxy'', YStr ''http://localhost:8080'')])])
   \<and> fst (make_domain_config failing_collab ''example.com'' example_template ex_env
             overlay_world)
       = Inl (CalledProcessError
          [''openssl'', ''req'', ''-new'', ''-key'', ''/home/user-data/ssl/ssl_private_key.pem'',
           ''-out'', ''/home/user-data/ssl/example.com/certificate_signing_request.csr'',
           ''-subj'', ''/C=US/ST=/L=/O=/CN=example.com''])"
  by code_simp

text \<open>
  Claim C5, amended. For the example template and an overlay whose entry for
  \<^verbatim>\<open>example.com\<close> has the proxy target \<^verbatim>\<open>http://localhost:8080\<close>, when the certificate step
  has completed without error, the result is the substituted template with the block
  \<^verbatim>\<open>location / { proxy_pass http://localhost:8080; }\<close> (on three lines, indented with tabs)
  put in right after the first marker line and before the tail; the rest is the template
  with the four substitutions applied.
\<close>

theorem proxy_after_marker:
  assumes "get_domain_ssl_files c ''example.com'' env w = (ssl_key, ssl_certificate, csr_path)"
    and "ensure_ssl_certificate_exists c ''example.com'' ssl_key ssl_certificate csr_path env w
           = (Inr (), w1)"
    and "read_file c w1 (path_join (STORAGE_ROOT env) [''www/custom.yaml'']) = Inr text"
    and "rtyaml_load c text = Some (YMap m)"
    and "map_of m ''example.com'' = Some (YMap e)"
    and "map_of e ''proxy'' = Some (YStr ''http://localhost:8080'')"
  shows "\<exists>pre post.
       (replace ''$SSL_CERTIFICATE'' ssl_certificate
            (replace ''$SSL_KEY'' ssl_key
              (replace ''$ROOT'' (get_web_root c ''example.com'' env w)
                (replace ''$HOSTNAME'' ''example.com'' example_template)))) = pre @ ''# ADDITIONAL DIRECTIVES HERE\<newline>'' @ post @ ''tail''
     \<and> (\<forall>p q. (replace ''$SSL_CERTIFICATE'' ssl_certificate
            (replace ''$SSL_KEY'' ssl_key
              (replace ''$ROOT'' (get_web_root c ''example.com'' env w)
                (replace ''$HOSTNAME'' ''example.com'' example_template)))) = p @ ''# ADDITIONAL DIRECTIVES HERE\<newline>'' @ q
           \<longrightarrow> length pre \<le> length p)
     \<and> make_domain_config c ''example.com'' example_template env w =
         (Inr (pre @ ''# ADDITIONAL DIRECTIVES HERE\<newline>''
               @ ([CHR 0x09] @ ''location / {\<newline>'' @ [CHR 0x09, CHR 0x09]
             @ ''proxy_pass http://localhost:8080;\<newline>'' @ [CHR 0x09] @ ''}\<newline>'')
               @ post @ ''tail''), w1)"
proof -
  define s where "s = substitute example_template ''example.com''
                        (get_web_root c ''example.com'' env w) ssl_key ssl_certificate"
  define X where "X = substitute ''$HOSTNAME|$ROOT|$SSL_KEY|$SSL_CERTIFICATE\<newline>'' ''example.com''
                        (get_web_root c ''example.com'' env w) ssl_key ssl_certificate"
  have sc: "(replace ''$SSL_CERTIFICATE'' ssl_certificate
            (replace ''$SSL_KEY'' ssl_key
              (replace ''$ROOT'' (get_web_root c ''example.com'' env w)
                (replace ''$HOSTNAME'' ''example.com'' example_template)))) = s"
    by (simp add: s_def substitute_chain)
  have sX: "s = X @ marker @ ''tail''"
    unfolding s_def X_def by (rule substitute_example_tail)
  from re_split_first_marker[OF sX]
  obtain pre post rest where a: "s = pre @ marker @ post" and b: "length pre \<le> length X"
    and d: "re_split marker s = pre # marker # rest" and e: "concat rest = post"
    by blast
  from a sX b obtain post' where p: "post = post' @ ''tail''"
    using suffix_tail[of pre marker post X "''tail''"] by auto
  have first: "\<forall>p q. s = p @ marker @ q \<longrightarrow> length pre \<le> length p"
  proof (intro allI impI)
    fix p q assume "s = p @ marker @ q"
    from re_split_first_marker[OF this] d show "length pre \<le> length p"
      by auto
  qed
  have i1: "py_in ''example.com'' (YMap m) = Inr True"
    and i2: "py_getitem (YMap m) ''example.com'' = Inr (YMap e)"
    and i3: "py_in ''proxy'' (YMap e) = Inr True"
    and i4: "py_getitem (YMap e) ''proxy'' = Inr (YStr ''http://localhost:8080'')"
    using assms(5,6) by simp_all
  have "add_customizations c ''example.com'' env w1 (re_split marker s)
      = Inr (pre # (marker @ proxy_block ''http://localhost:8080'') # rest)"
    by (simp add: add_customizations_proxy[OF assms(3,4) i1 i2 i3] assms(6) d)
  then have "make_domain_config c ''example.com'' example_template env w
      = (Inr (pre @ marker @ proxy_block ''http://localhost:8080'' @ post), w1)"
    unfolding make_domain_config_provisioned[OF assms(1,2)] s_def[symmetric]
    by (simp add: e)
  moreover have "proxy_block ''http://localhost:8080''
      = ([CHR 0x09] @ ''location / {\<newline>'' @ [CHR 0x09, CHR 0x09]
             @ ''proxy_pass http://localhost:8080;\<newline>'' @ [CHR 0x09] @ ''}\<newline>'')"
    by (simp add: proxy_block_def)
  ultimately have "make_domain_config c ''example.com'' example_template env w
      = (Inr (pre @ marker
              @ ([CHR 0x09] @ ''location / {\<newline>'' @ [CHR 0x09, CHR 0x09]
             @ ''proxy_pass http://localhost:8080;\<newline>'' @ [CHR 0x09] @ ''}\<newline>'')
              @ post), w1)"
    by (simp only:)
  with a first p show ?thesis
    unfolding sc marker_text[symmetric] by auto
qed

theorem proxy_after_marker_witness:
  "get_domain_ssl_files ex_collab ''example.com'' ex_env overlay_world = (''/home/user-data/ssl/ssl_private_key.pem'',
        ''/home/user-data/ssl/example.com/ssl_certificate.pem'',
        ''/home/user-data/ssl/example.com/certificate_signing_request.csr'')
   \<and> fst (ensure_ssl_certificate_exists ex_collab ''example.com''
          ''/home/user-data/ssl/ssl_private_key.pem''
          ''/home/user-data/ssl/example.com/ssl_certificate.pem''
          ''/home/user-data/ssl/example.com/certificate_signing_request.csr''
          ex_env overlay_world) = Inr ()
   \<and> read_file ex_collab (snd (ensure_ssl_certificate_exists ex_collab ''example.com''
          ''/home/user-data/ssl/ssl_private_key.pem''
          ''/home/user-data/ssl/example.com/ssl_certificate.pem''
          ''/home/user-data/ssl/example.com/certificate_signing_request.csr''
          ex_env overlay_world)) (path_join (STORAGE_ROOT ex_env) [''www/custom.yaml'']) = Inr ''proxy''
   \<and> rtyaml_load ex_collab ''proxy''
       = Some (YMap [(''example.com'', YMap [(''proxy'', YStr ''http://localhost:8080'')])])
   \<and> (\<exists>pre post.
        (replace ''$SSL_CERTIFICATE'' ''/home/user-data/ssl/example.com/ssl_certificate.pem''
            (replace ''$SSL_KEY'' ''/home/user-data/ssl/ssl_private_key.pem''
              (replace ''$ROOT'' ''/home/user-data/www/default''
                (replace ''$HOSTNAME'' ''example.com'' example_template)))) = pre @ ''# ADDITIONAL DIRECTIVES HERE\<newline>'' @ post @ ''tail''
        \<and> fst (make_domain_config ex_collab ''example.com'' example_template ex_env overlay_world)
          = Inr (pre @ ''# ADDITIONAL DIRECTIVES HERE\<newline>''
                 @ ([CHR 0x09] @ ''location / {\<newline>'' @ [CHR 0x09, CHR 0x09]
             @ ''proxy_pass http://localhost:8080;\<newline>'' @ [CHR 0x09] @ ''}\<newline>'')
                 @ post @ ''tail''))
   \<and> fst (make_domain_config ex_collab ''example.com'' example_template ex_env overlay_world)
       = Inr (''example.com|/home/user-data/www/default|/home/user-data/ssl/ssl_private_key.pem|/home/user-data/ssl/example.com/ssl_certificate.pem\<newline>''
              @ ''# ADDITIONAL DIRECTIVES HERE\<newline>''
              @ ([CHR 0x09] @ ''location / {\<newline>'' @ [CHR 0x09, CHR 0x09]
             @ ''proxy_pass http://localhost:8080;\<newline>'' @ [CHR 0x09] @ ''}\<newline>'')
              @ ''tail'')"
proof -
  let ?w1 = "snd (ensure_ssl_certificate_exists ex_collab ''example.com''
          ''/home/user-data/ssl/ssl_private_key.pem''
          ''/home/user-data/ssl/example.com/ssl_certificate.pem''
          ''/home/user-data/ssl/example.com/certificate_signing_request.csr''
          ex_env overlay_world)"
  have h1: "get_domain_ssl_files ex_collab ''example.com'' ex_env overlay_world = (''/home/user-data/ssl/ssl_private_key.pem'',
        ''/home/user-data/ssl/example.com/ssl_certificate.pem'',
        ''/home/user-data/ssl/example.com/certificate_signing_request.csr'')"
    by code_simp
  have f: "fst (ensure_ssl_certificate_exists ex_collab ''example.com''
          ''/home/user-data/ssl/ssl_private_key.pem''
          ''/home/user-data/ssl/example.com/ssl_certificate.pem''
          ''/home/user-data/ssl/example.com/certificate_signing_request.csr''
          ex_env overlay_world) = Inr ()"
    by code_simp
  have h2: "ensure_ssl_certificate_exists ex_collab ''example.com''
          ''/home/user-data/ssl/ssl_private_key.pem''
          ''/home/user-data/ssl/example.com/ssl_certificate.pem''
          ''/home/user-data/ssl/example.com/certificate_signing_request.csr''
          ex_env overlay_world = (Inr (), ?w1)"
    using f by (rule pair_from_fst)
  have h3: "read_file ex_collab ?w1 (path_join (STORAGE_ROOT ex_env) [''www/custom.yaml'']) = Inr ''proxy''"
    by code_simp
  have h4: "rtyaml_load ex_collab ''proxy''
       = Some (YMap [(''example.com'', YMap [(''proxy'', YStr ''http://localhost:8080'')])])"
    by code_simp
  have h5: "map_of [(''example.com'', YMap [(''proxy'', YStr ''http://localhost:8080'')])]
              ''example.com'' = Some (YMap [(''proxy'', YStr ''http://localhost:8080'')])"
    by simp
  have h6: "map_of [(''proxy'', YStr ''http://localhost:8080'')] ''proxy''
              = Some (YStr ''http://localhost:8080'')"
    by simp
  have r: "get_web_root ex_collab ''example.com'' ex_env overlay_world
             = ''/home/user-data/www/default''"
    by code_simp
  from proxy_after_marker[OF h1 h2 h3 h4 h5 h6]
  obtain pre post where
    "(replace ''$SSL_CERTIFICATE'' ''/home/user-data/ssl/example.com/ssl_certificate.pem''
            (replace ''$SSL_KEY'' ''/home/user-data/ssl/ssl_private_key.pem''
              (replace ''$ROOT'' (get_web_root ex_collab ''example.com'' ex_env overlay_world)
                (replace ''$HOSTNAME'' ''example.com'' example_template)))) = pre @ ''# ADDITIONAL DIRECTIVES HERE\<newline>'' @ post @ ''tail''"
    and "make_domain_config ex_collab ''example.com'' example_template ex_env overlay_world
          = (Inr (pre @ ''# ADDITIONAL DIRECTIVES HERE\<newline>''
                  @ ([CHR 0x09] @ ''location / {\<newline>'' @ [CHR 0x09, CHR 0x09]
             @ ''proxy_pass http://localhost:8080;\<newline>'' @ [CHR 0x09] @ ''}\<newline>'')
                  @ post @ ''tail''), ?w1)"
    by blast
  then have e: "\<exists>pre post.
        (replace ''$SSL_CERTIFICATE'' ''/home/user-data/ssl/example.com/ssl_certificate.pem''
            (replace ''$SSL_KEY'' ''/home/user-data/ssl/ssl_private_key.pem''
              (replace ''$ROOT'' ''/home/user-data/www/default''
                (replace ''$HOSTNAME'' ''example.com'' example_template)))) = pre @ ''# ADDITIONAL DIRECTIVES HERE\<newline>'' @ post @ ''tail''
        \<and> fst (make_domain_config ex_collab ''example.com'' example_template ex_env overlay_world)
          = Inr (pre @ ''# ADDITIONAL DIRECTIVES HERE\<newline>''
                 @ ([CHR 0x09] @ ''location / {\<newline>'' @ [CHR 0x09, CHR 0x09]
             @ ''proxy_pass http://localhost:8080;\<newline>'' @ [CHR 0x09] @ ''}\<newline>'')
                 @ post @ ''tail'')"
    unfolding r by (metis fst_conv)
  have v: "fst (make_domain_config ex_collab ''example.com'' example_template ex_env overlay_world)
       = Inr (''example.com|/home/user-data/www/default|/home/user-data/ssl/ssl_private_key.pem|/home/user-data/ssl/example.com/ssl_certificate.pem\<newline>''
              @ ''# ADDITIONAL DIRECTIVES HERE\<newline>''
              @ ([CHR 0x09] @ ''location / {\<newline>'' @ [CHR 0x09, CHR 0x09]
             @ ''proxy_pass http://localhost:8080;\<newline>'' @ [CHR 0x09] @ ''}\<newline>'')
              @ ''tail'')"
    by code_simp
  from h1 f h3 h4 e v show ?thesis by blast
qed




section \<open>Updating the configuration: proofs\<close>

lemma universal_newlines_id: "CHR 0x0D \<notin> set s \<Longrightarrow> universal_newlines s = s"
  by (induction s rule: universal_newlines.induct) auto

lemma add_dirs_keeps: "m p \<noteq> None \<Longrightarrow> add_dirs ps m p = m p"
  by (induction ps) (auto simp: add_dirs_def)

lemma makedirs_quiet:
  assumes "makedirs c name w = (r, w')"
  shows "writes w' = writes w" and "execs w' = execs w"
    and "nodes w p \<noteq> None \<Longrightarrow> nodes w' p = nodes w p"
  using assms
  by (auto simp: makedirs_def writes_def execs_def add_dirs_keeps split: if_splits)

lemma ensure_quiet:
  assumes "ensure_ssl_certificate_exists c domain ssl_key ssl_certificate csr_path env w = (r, w')"
  shows "writes w' = writes w"
    and "count_list (execs w') [''/usr/sbin/service'', ''nginx'', ''reload''] = count_list (execs w) [''/usr/sbin/service'', ''nginx'', ''reload'']"
    and "nodes w p \<noteq> None \<Longrightarrow> nodes w' p = nodes w p"
proof -
  obtain r0 w0 where m: "makedirs c (dirname ssl_certificate) w = (r0, w0)"
    by (cases "makedirs c (dirname ssl_certificate) w") auto
  note q = makedirs_quiet[OF m]
  from assms m q(1,2)
  show "writes w' = writes w"
    and "count_list (execs w') [''/usr/sbin/service'', ''nginx'', ''reload''] = count_list (execs w) [''/usr/sbin/service'', ''nginx'', ''reload'']"
    by (auto simp: ensure_ssl_certificate_exists_def shell_def writes_def execs_def
          csr_command_def sign_command_def split: if_splits sum.splits)
  from assms m q(3)[of p]
  show "nodes w p \<noteq> None \<Longrightarrow> nodes w' p = nodes w p"
    by (auto simp: ensure_ssl_certificate_exists_def shell_def split: if_splits sum.splits)
qed

lemma make_domain_config_quiet:
  assumes "make_domain_config c domain template env w = (r, w')"
  shows "writes w' = writes w"
    and "count_list (execs w') [''/usr/sbin/service'', ''nginx'', ''reload''] = count_list (execs w) [''/usr/sbin/service'', ''nginx'', ''reload'']"
    and "nodes w p \<noteq> None \<Longrightarrow> nodes w' p = nodes w p"
proof -
  obtain k crt csr where f: "get_domain_ssl_files c domain env w = (k, crt, csr)"
    by (cases "get_domain_ssl_files c domain env w") auto
  obtain r1 w1 where e: "ensure_ssl_certificate_exists c domain k crt csr env w = (r1, w1)"
    by (cases "ensure_ssl_certificate_exists c domain k crt csr env w") auto
  have "w' = w1"
    using assms f e by (auto simp: make_domain_config_def Let_def split: sum.splits)
  with ensure_quiet[OF e]
  show "writes w' = writes w"
    and "count_list (execs w') [''/usr/sbin/service'', ''nginx'', ''reload''] = count_list (execs w) [''/usr/sbin/service'', ''nginx'', ''reload'']"
    and "nodes w p \<noteq> None \<Longrightarrow> nodes w' p = nodes w p"
    by simp_all
qed

lemma add_domain_configs_quiet:
  "add_domain_configs c template env ds acc w = (r, w') \<Longrightarrow>
   writes w' = writes w
   \<and> count_list (execs w') [''/usr/sbin/service'', ''nginx'', ''reload''] = count_list (execs w) [''/usr/sbin/service'', ''nginx'', ''reload'']
   \<and> (nodes w p \<noteq> None \<longrightarrow> nodes w' p = nodes w p)"
proof (induction ds arbitrary: acc w)
  case Nil
  then show ?case by simp
next
  case (Cons d ds)
  obtain r1 w1 where m: "make_domain_config c d template env w = (r1, w1)"
    by (cases "make_domain_config c d template env w") auto
  note q = make_domain_config_quiet[OF m]
  show ?case
  proof (cases r1)
    case (Inl e)
    with Cons.prems m q show ?thesis by auto
  next
    case (Inr block)
    with Cons.prems m have "add_domain_configs c template env ds (acc @ block) w1 = (r, w')"
      by simp
    from Cons.IH[OF this] q show ?thesis by auto
  qed
qed

lemma build_nginx_conf_quiet:
  assumes "build_nginx_conf c env w = (r, w')"
  shows "writes w' = writes w"
    and "count_list (execs w') [''/usr/sbin/service'', ''nginx'', ''reload''] = count_list (execs w) [''/usr/sbin/service'', ''nginx'', ''reload'']"
    and "nodes w p \<noteq> None \<Longrightarrow> nodes w' p = nodes w p"
  using assms add_domain_configs_quiet[of c _ env "get_web_domains c env" _ w r w' p]
  by (auto simp: build_nginx_conf_def split: sum.splits)

lemma write_file_ok:
  assumes "fst (write_file c p t w) = Inr ()"
  shows "write_file c p t w
           = (Inr (), w\<lparr>nodes := (nodes w)(p \<mapsto> File t), log := log w @ [Write p t]\<rparr>)"
  using assms by (auto simp: write_file_def split: if_splits)


lemma save_and_reload_ok:
  assumes "fst (write_file c nginx_conf_fn nginx_conf w) = Inr ()"
  shows "log (snd (save_and_reload c nginx_conf w))
      = log w @ [Write nginx_conf_fn nginx_conf, Exec reload_command]"
    and "nodes (snd (save_and_reload c nginx_conf w)) = (nodes w)(nginx_conf_fn \<mapsto> File nginx_conf)"
    and "fst (save_and_reload c nginx_conf w)
      = (if exit_ok c reload_command (snd (write_file c nginx_conf_fn nginx_conf w))
         then Inr ''web updated\<newline>'' else Inl (CalledProcessError reload_command))"
  by (simp_all add: save_and_reload_def shell_def write_file_ok[OF assms])


lemma do_web_update_unchanged:
  assumes "build_nginx_conf c env w = (Inr nginx_conf, w1)"
    and "read_file c w1 nginx_conf_fn = Inr nginx_conf"
  shows "do_web_update c env w = (Inr [], w1)"
  using assms read_file_exists[OF assms(2)] by (simp add: do_web_update_def)

lemma do_web_update_changed:
  assumes "build_nginx_conf c env w = (Inr nginx_conf, w1)"
    and "\<not> path_exists w1 nginx_conf_fn \<or> read_file c w1 nginx_conf_fn = Inr old"
    and "old \<noteq> nginx_conf"
  shows "do_web_update c env w = save_and_reload c nginx_conf w1"
  using assms by (auto simp: do_web_update_def)

lemma do_web_update_written:
  assumes "build_nginx_conf c env w = (r, w1)"
    and "nodes w1 nginx_conf_fn = Some (File nginx_conf)"
    and "r = Inr nginx_conf" and "CHR 0x0D \<notin> set nginx_conf"
  shows "do_web_update c env w = (Inr [], w1)
       \<or> do_web_update c env w = (Inl (PermissionError nginx_conf_fn), w1)"
  using assms
  by (auto simp: do_web_update_def path_exists_def read_file_def universal_newlines_id)

lemma file_names: "nginx_conf_fn = ''/etc/nginx/conf.d/local.conf''" "reload_command = [''/usr/sbin/service'', ''nginx'', ''reload'']"
  by (simp_all add: nginx_conf_fn_def reload_command_def)

text \<open>
  Claim C3, as stated: a configuration file that is byte for byte the text just built means
  no write and no reload, and two calls with unchanged inputs write and reload exactly once,
  on the first call. Neither holds in general. The file is read in text mode, so a carriage
  return in the built text comes back as a line feed: the file written by the first call is
  byte for byte the text the second call builds, and the second call writes and reloads
  again. When the directory of the configuration file is missing the write raises, and two
  calls perform no write and no reload at all; so do two calls on a file that is up to date.
\<close>

theorem second_update_not_a_no_op:
  "fst (do_web_update solo_collab ex_env cr_world) = Inr ''web updated\<newline>''
   \<and> fst (build_nginx_conf solo_collab ex_env (snd (do_web_update solo_collab ex_env cr_world)))
       = Inr (''## top\<newline>server_name box.example.com;\<newline># ADDITIONAL DIRECTIVES HERE\<newline>''
           @ [CHR 0x09] @ ''location / {\<newline>'' @ [CHR 0x09, CHR 0x09]
           @ ''proxy_pass http://localhost:8080'' @ [CHR 0x0D] @ '';\<newline>''
           @ [CHR 0x09] @ ''}\<newline>'')
   \<and> nodes (snd (do_web_update solo_collab ex_env cr_world)) ''/etc/nginx/conf.d/local.conf''
       = Some (File (''## top\<newline>server_name box.example.com;\<newline># ADDITIONAL DIRECTIVES HERE\<newline>''
           @ [CHR 0x09] @ ''location / {\<newline>'' @ [CHR 0x09, CHR 0x09]
           @ ''proxy_pass http://localhost:8080'' @ [CHR 0x0D] @ '';\<newline>''
           @ [CHR 0x09] @ ''}\<newline>''))
   \<and> fst (do_web_update solo_collab ex_env (snd (do_web_update solo_collab ex_env cr_world))) = Inr ''web updated\<newline>''
   \<and> length (writes (snd (do_web_update solo_collab ex_env (snd (do_web_update solo_collab ex_env cr_world))))) = 2
   \<and> count_list (execs (snd (do_web_update solo_collab ex_env (snd (do_web_update solo_collab ex_env cr_world)))))
        [''/usr/sbin/service'', ''nginx'', ''reload''] = 2
   \<and> fst (do_web_update solo_collab ex_env no_conf_dir_world) = Inl (FileNotFoundError ''/etc/nginx/conf.d/local.conf'')
   \<and> fst (do_web_update solo_collab ex_env (snd (do_web_update solo_collab ex_env no_conf_dir_world))) = Inl (FileNotFoundError ''/etc/nginx/conf.d/local.conf'')
   \<and> log (snd (do_web_update solo_collab ex_env (snd (do_web_update solo_collab ex_env no_conf_dir_world)))) = []
   \<and> fst (do_web_update solo_collab ex_env current_world) = Inr []
   \<and> fst (do_web_update solo_collab ex_env (snd (do_web_update solo_collab ex_env current_world))) = Inr []
   \<and> log (snd (do_web_update solo_collab ex_env (snd (do_web_update solo_collab ex_env current_world)))) = []"
  by code_simp

text \<open>
  Claim C3, amended. \<open>do_web_update\<close> compares the text just built with the configuration
  file as read in text mode, every carriage return with or without a following line feed
  read as a line feed. When the two are equal it returns the empty no-change result in the
  world the build left: nothing is written and nothing is reloaded. When they differ (or
  there is no file), the write succeeds and the built text has no carriage return, the call
  writes once and reloads once; a second call that builds the same text then finds the file
  up to date: it returns the no-change result, or the error of a refused read, and adds no
  write and no reload, so both calls together write once and reload once.
\<close>

theorem do_web_update_idempotent:
  assumes "fst (build_nginx_conf c env w) = Inr nginx_conf"
  shows "(read_file c (snd (build_nginx_conf c env w)) ''/etc/nginx/conf.d/local.conf'' = Inr nginx_conf \<longrightarrow>
            do_web_update c env w = (Inr [], snd (build_nginx_conf c env w))
            \<and> writes (snd (do_web_update c env w)) = writes w
            \<and> count_list (execs (snd (do_web_update c env w))) [''/usr/sbin/service'', ''nginx'', ''reload'']
                = count_list (execs w) [''/usr/sbin/service'', ''nginx'', ''reload''])
       \<and> ((\<not> path_exists (snd (build_nginx_conf c env w)) ''/etc/nginx/conf.d/local.conf''
              \<or> read_file c (snd (build_nginx_conf c env w)) ''/etc/nginx/conf.d/local.conf'' = Inr old)
            \<and> old \<noteq> nginx_conf
            \<and> fst (write_file c ''/etc/nginx/conf.d/local.conf'' nginx_conf (snd (build_nginx_conf c env w))) = Inr ()
            \<and> CHR 0x0D \<notin> set nginx_conf
            \<and> fst (build_nginx_conf c env (snd (do_web_update c env w))) = Inr nginx_conf \<longrightarrow>
            writes (snd (do_web_update c env w)) = writes w @ [(''/etc/nginx/conf.d/local.conf'', nginx_conf)]
            \<and> count_list (execs (snd (do_web_update c env w))) [''/usr/sbin/service'', ''nginx'', ''reload'']
                = count_list (execs w) [''/usr/sbin/service'', ''nginx'', ''reload''] + 1
            \<and> (fst (do_web_update c env (snd (do_web_update c env w))) = Inr []
               \<or> fst (do_web_update c env (snd (do_web_update c env w)))
                   = Inl (PermissionError ''/etc/nginx/conf.d/local.conf''))
            \<and> writes (snd (do_web_update c env (snd (do_web_update c env w))))
                = writes w @ [(''/etc/nginx/conf.d/local.conf'', nginx_conf)]
            \<and> count_list (execs (snd (do_web_update c env (snd (do_web_update c env w)))))
                 [''/usr/sbin/service'', ''nginx'', ''reload'']
                = count_list (execs w) [''/usr/sbin/service'', ''nginx'', ''reload''] + 1)"
proof (intro conjI impI)
  define w1 where "w1 = snd (build_nginx_conf c env w)"
  have b: "build_nginx_conf c env w = (Inr nginx_conf, w1)"
    unfolding w1_def using assms by (rule pair_from_fst)
  note q = build_nginx_conf_quiet[OF b]
  {
    assume same: "read_file c (snd (build_nginx_conf c env w)) ''/etc/nginx/conf.d/local.conf'' = Inr nginx_conf"
    then have u: "do_web_update c env w = (Inr [], w1)"
      unfolding w1_def[symmetric] file_names[symmetric] using b
      by (intro do_web_update_unchanged)
    show "do_web_update c env w = (Inr [], snd (build_nginx_conf c env w))"
      using u by (simp add: w1_def)
    show "writes (snd (do_web_update c env w)) = writes w"
      using u q by simp
    show "count_list (execs (snd (do_web_update c env w))) [''/usr/sbin/service'', ''nginx'', ''reload'']
            = count_list (execs w) [''/usr/sbin/service'', ''nginx'', ''reload'']"
      using u q by simp
  }
  {
    assume h: "(\<not> path_exists (snd (build_nginx_conf c env w)) ''/etc/nginx/conf.d/local.conf''
              \<or> read_file c (snd (build_nginx_conf c env w)) ''/etc/nginx/conf.d/local.conf'' = Inr old)
            \<and> old \<noteq> nginx_conf
            \<and> fst (write_file c ''/etc/nginx/conf.d/local.conf'' nginx_conf (snd (build_nginx_conf c env w))) = Inr ()
            \<and> CHR 0x0D \<notin> set nginx_conf
            \<and> fst (build_nginx_conf c env (snd (do_web_update c env w))) = Inr nginx_conf"
    define w2 where "w2 = snd (do_web_update c env w)"
    define w3 where "w3 = snd (build_nginx_conf c env w2)"
    have d: "\<not> path_exists w1 nginx_conf_fn \<or> read_file c w1 nginx_conf_fn = Inr old"
      and ne: "old \<noteq> nginx_conf"
      and wf: "fst (write_file c nginx_conf_fn nginx_conf w1) = Inr ()"
      and nocr: "CHR 0x0D \<notin> set nginx_conf"
      using h unfolding w1_def[symmetric] file_names[symmetric] by blast+
    have u: "do_web_update c env w = save_and_reload c nginx_conf w1"
      using b d ne by (rule do_web_update_changed)
    have l2: "log w2 = log w1 @ [Write nginx_conf_fn nginx_conf, Exec reload_command]"
      and n2: "nodes w2 = (nodes w1)(nginx_conf_fn \<mapsto> File nginx_conf)"
      unfolding w2_def u by (simp_all add: save_and_reload_ok[OF wf])
    have wr2: "writes w2 = writes w @ [(''/etc/nginx/conf.d/local.conf'', nginx_conf)]"
      using l2 q(1) by (simp add: writes_def file_names)
    have rl2: "count_list (execs w2) [''/usr/sbin/service'', ''nginx'', ''reload''] = count_list (execs w) [''/usr/sbin/service'', ''nginx'', ''reload''] + 1"
      using l2 q(2) by (simp add: execs_def file_names)
    have b2: "build_nginx_conf c env w2 = (Inr nginx_conf, w3)"
      unfolding w3_def using h unfolding w2_def[symmetric] by (intro pair_from_fst) blast
    note q2 = build_nginx_conf_quiet[OF b2]
    have "nodes w3 nginx_conf_fn = Some (File nginx_conf)"
      using q2(3)[of nginx_conf_fn] n2 by simp
    from do_web_update_written[OF b2 this refl nocr]
    have u2: "do_web_update c env w2 = (Inr [], w3)
       \<or> do_web_update c env w2 = (Inl (PermissionError ''/etc/nginx/conf.d/local.conf''), w3)"
      by (simp add: file_names)
    show "writes (snd (do_web_update c env w)) = writes w @ [(''/etc/nginx/conf.d/local.conf'', nginx_conf)]"
      using wr2 by (simp add: w2_def)
    show "count_list (execs (snd (do_web_update c env w))) [''/usr/sbin/service'', ''nginx'', ''reload'']
            = count_list (execs w) [''/usr/sbin/service'', ''nginx'', ''reload''] + 1"
      using rl2 by (simp add: w2_def)
    show "fst (do_web_update c env (snd (do_web_update c env w))) = Inr []
               \<or> fst (do_web_update c env (snd (do_web_update c env w)))
                   = Inl (PermissionError ''/etc/nginx/conf.d/local.conf'')"
      using u2 unfolding w2_def[symmetric] by auto
    show "writes (snd (do_web_update c env (snd (do_web_update c env w))))
                = writes w @ [(''/etc/nginx/conf.d/local.conf'', nginx_conf)]"
      using u2 q2(1) wr2 unfolding w2_def[symmetric] by auto
    show "count_list (execs (snd (do_web_update c env (snd (do_web_update c env w)))))
                 [''/usr/sbin/service'', ''nginx'', ''reload'']
                = count_list (execs w) [''/usr/sbin/service'', ''nginx'', ''reload''] + 1"
      using u2 q2(2) rl2 unfolding w2_def[symmetric] by auto
  }
qed

theorem do_web_update_idempotent_witness:
  "fst (build_nginx_conf ex_collab ex_env update_world) = Inr (projr (fst (build_nginx_conf ex_collab ex_env update_world)))
   \<and> read_file ex_collab (snd (build_nginx_conf ex_collab ex_env update_world)) ''/etc/nginx/conf.d/local.conf'' = Inr ''stale''
   \<and> ''stale'' \<noteq> projr (fst (build_nginx_conf ex_collab ex_env update_world))
   \<and> fst (write_file ex_collab ''/etc/nginx/conf.d/local.conf'' (projr (fst (build_nginx_conf ex_collab ex_env update_world))) (snd (build_nginx_conf ex_collab ex_env update_world))) = Inr ()
   \<and> CHR 0x0D \<notin> set (projr (fst (build_nginx_conf ex_collab ex_env update_world)))
   \<and> fst (build_nginx_conf ex_collab ex_env (snd (do_web_update ex_collab ex_env update_world))) = Inr (projr (fst (build_nginx_conf ex_collab ex_env update_world)))
   \<and> read_file ex_collab (snd (build_nginx_conf ex_collab ex_env (snd (do_web_update ex_collab ex_env update_world)))) ''/etc/nginx/conf.d/local.conf''
       = Inr (projr (fst (build_nginx_conf ex_collab ex_env update_world)))
   \<and> fst (do_web_update ex_collab ex_env update_world) = Inr ''web updated\<newline>''
   \<and> writes (snd (do_web_update ex_collab ex_env update_world)) = [(''/etc/nginx/conf.d/local.conf'', projr (fst (build_nginx_conf ex_collab ex_env update_world)))]
   \<and> count_list (execs (snd (do_web_update ex_collab ex_env update_world))) [''/usr/sbin/service'', ''nginx'', ''reload''] = 1
   \<and> fst (do_web_update ex_collab ex_env (snd (do_web_update ex_collab ex_env update_world))) = Inr []
   \<and> writes (snd (do_web_update ex_collab ex_env (snd (do_web_update ex_collab ex_env update_world))))
       = [(''/etc/nginx/conf.d/local.conf'', projr (fst (build_nginx_conf ex_collab ex_env update_world)))]
   \<and> count_list (execs (snd (do_web_update ex_collab ex_env (snd (do_web_update ex_collab ex_env update_world))))) [''/usr/sbin/service'', ''nginx'', ''reload''] = 1"
proof -
  let ?conf = "projr (fst (build_nginx_conf ex_collab ex_env update_world))"
  have h: "fst (build_nginx_conf ex_collab ex_env update_world) = Inr ?conf"
    by code_simp
  have d: "read_file ex_collab (snd (build_nginx_conf ex_collab ex_env update_world)) ''/etc/nginx/conf.d/local.conf'' = Inr ''stale''"
    by code_simp
  have ne: "''stale'' \<noteq> ?conf"
    by code_simp
  have wf: "fst (write_file ex_collab ''/etc/nginx/conf.d/local.conf'' ?conf (snd (build_nginx_conf ex_collab ex_env update_world))) = Inr ()"
    by code_simp
  have nocr: "CHR 0x0D \<notin> set ?conf"
    by code_simp
  have h2: "fst (build_nginx_conf ex_collab ex_env (snd (do_web_update ex_collab ex_env update_world))) = Inr ?conf"
    by code_simp
  have s2: "read_file ex_collab (snd (build_nginx_conf ex_collab ex_env (snd (do_web_update ex_collab ex_env update_world)))) ''/etc/nginx/conf.d/local.conf''
       = Inr ?conf"
    by code_simp
  have u: "fst (do_web_update ex_collab ex_env update_world) = Inr ''web updated\<newline>''"
    by code_simp
  have v: "fst (do_web_update ex_collab ex_env (snd (do_web_update ex_collab ex_env update_world))) = Inr []"
    by code_simp
  have w0: "writes update_world = []" and r0: "count_list (execs update_world) [''/usr/sbin/service'', ''nginx'', ''reload''] = 0"
    by (simp_all add: writes_def execs_def update_world_def ex_world_def)
  from do_web_update_idempotent[OF h, of "''stale''"] d ne wf nocr h2
  have a: "writes (snd (do_web_update ex_collab ex_env update_world)) = writes update_world @ [(''/etc/nginx/conf.d/local.conf'', ?conf)]"
    and b: "count_list (execs (snd (do_web_update ex_collab ex_env update_world))) [''/usr/sbin/service'', ''nginx'', ''reload'']
              = count_list (execs update_world) [''/usr/sbin/service'', ''nginx'', ''reload''] + 1"
    and e: "writes (snd (do_web_update ex_collab ex_env (snd (do_web_update ex_collab ex_env update_world))))
              = writes update_world @ [(''/etc/nginx/conf.d/local.conf'', ?conf)]"
    and g: "count_list (execs (snd (do_web_update ex_collab ex_env (snd (do_web_update ex_collab ex_env update_world))))) [''/usr/sbin/service'', ''nginx'', ''reload'']
              = count_list (execs update_world) [''/usr/sbin/service'', ''nginx'', ''reload''] + 1"
    by blast+
  from do_web_update_idempotent[OF h2, of "[]"] s2
  have k: "writes (snd (do_web_update ex_collab ex_env (snd (do_web_update ex_collab ex_env update_world)))) = writes (snd (do_web_update ex_collab ex_env update_world))"
    by blast
  from a b e g have
    "writes (snd (do_web_update ex_collab ex_env update_world)) = [(''/etc/nginx/conf.d/local.conf'', ?conf)]"
    "count_list (execs (snd (do_web_update ex_collab ex_env update_world))) [''/usr/sbin/service'', ''nginx'', ''reload''] = 1"
    "writes (snd (do_web_update ex_collab ex_env (snd (do_web_update ex_collab ex_env update_world)))) = [(''/etc/nginx/conf.d/local.conf'', ?conf)]"
    "count_list (execs (snd (do_web_update ex_collab ex_env (snd (do_web_update ex_collab ex_env update_world))))) [''/usr/sbin/service'', ''nginx'', ''reload''] = 1"
    by (simp_all add: w0 r0)
  with h d ne wf nocr h2 s2 u v k show ?thesis by blast
qed




end
